theory Spec2Isabelle
  imports Complex_Main
begin

section \<open>LocalLens: report lifecycle, access control and bearer tokens\<close>

text \<open>
  The development embeds the Express handlers of \<^verbatim>\<open>backend/routes/reports.js\<close>, the admin
  router (\<^verbatim>\<open>/api/admin\<close>), the authentication middleware and the Mongoose schema of
  \<^verbatim>\<open>backend/models/Report.js\<close>.

  Conventions of the embedding:
  \<^item> an ObjectId is a natural number, and \<^verbatim>\<open>a.toString() === b.toString()\<close> on ObjectIds is
    equality;
  \<^item> a \<^verbatim>\<open>Date\<close> is a natural number (milliseconds), and every \<^verbatim>\<open>new Date()\<close> of one
    request reads the time \<open>now\<close> that the handler receives;
  \<^item> strings are ASCII, so that \<^verbatim>\<open>.length\<close>, \<^verbatim>\<open>isLength\<close> and \<open>length\<close> count the same;
    a string field that is absent from a request body is the empty string wherever the
    code treats both alike (\<^verbatim>\<open>if (title)\<close>, a validator without \<^verbatim>\<open>optional()\<close>), and an
    \<open>option\<close> elsewhere;
  \<^item> a handler takes the database and returns its response and the database it leaves:
    \<open>Inl\<close> is the error response, \<open>Inr\<close> the success payload;
  \<^item> requests are handled one at a time;
  \<^item> a report document has the paths that the schema declares and the \<^verbatim>\<open>createdAt\<close> and
    \<^verbatim>\<open>updatedAt\<close> stamps that the schema option \<^verbatim>\<open>timestamps: true\<close> keeps; both are
    unset until the document is first saved;
  \<^item> the query engine of the database (\<^verbatim>\<open>Report.find\<close> with its sort, skip and limit,
    and \<^verbatim>\<open>countDocuments\<close>) is a parameter of the listing handler.
\<close>

subsection \<open>Responses\<close>

datatype http_error =
    Failure nat string
  | ValidationFailed "string list"

type_synonym objectId = nat
type_synonym date = nat

subsection \<open>Users and the environment\<close>

text \<open>
  The fields of a user document that the routes read (\<^verbatim>\<open>_id\<close>, \<^verbatim>\<open>name\<close>, \<^verbatim>\<open>role\<close>,
  \<^verbatim>\<open>adminArea\<close>, \<^verbatim>\<open>isActive\<close>).
\<close>

record user =
  user_id :: objectId
  name :: string
  role :: string
  adminArea :: "string option"
  isActive :: bool

record env =
  JWT_SECRET :: "string option"
  JWT_REFRESH_SECRET :: "string option"
  JWT_EXPIRES_IN :: "nat option"

text \<open>\<^verbatim>\<open>a || b\<close> on two optional strings: the first when it is set and not empty.\<close>

definition or_else :: "string option \<Rightarrow> string option \<Rightarrow> string option" where
  "or_else a b = (case a of Some s \<Rightarrow> (if s \<noteq> [] then Some s else b) | None \<Rightarrow> b)"

subsection \<open>Signed tokens\<close>

text \<open>
  \<^verbatim>\<open>jsonwebtoken\<close> is modelled symbolically: a token is either the payload together with
  the secret that signed it, or text that is not a token. Verification under a secret
  accepts exactly the tokens signed with that secret. Times of tokens are in seconds.
\<close>

record jwt_payload =
  userId :: objectId
  type :: "string option"
  iat :: nat
  exp :: nat

datatype token =
    Signed jwt_payload string
  | Opaque string

datatype jwt_error = JsonWebTokenError | TokenExpiredError

text \<open>\<^verbatim>\<open>jwt.sign(payload, secret, {expiresIn})\<close>; it throws without a secret (\<open>None\<close>).\<close>

definition jwt_sign :: "objectId \<Rightarrow> string option \<Rightarrow> string option \<Rightarrow> nat \<Rightarrow> nat \<Rightarrow> token option" where
  "jwt_sign uid ty secret expiresIn now =
     (case secret of
        None \<Rightarrow> None
      | Some k \<Rightarrow>
          if k = [] then None
          else Some (Signed \<lparr>userId = uid, type = ty, iat = now, exp = now + expiresIn\<rparr> k))"

text \<open>\<^verbatim>\<open>jwt.verify(token, secret)\<close> with no options: signature, then expiry.\<close>

definition jwt_verify :: "token \<Rightarrow> string option \<Rightarrow> nat \<Rightarrow> jwt_error + jwt_payload" where
  "jwt_verify t secret now =
     (case secret of
        None \<Rightarrow> Inl JsonWebTokenError
      | Some k \<Rightarrow>
          if k = [] then Inl JsonWebTokenError
          else (case t of
                  Opaque s \<Rightarrow> Inl JsonWebTokenError
                | Signed p k' \<Rightarrow>
                    if k' \<noteq> k then Inl JsonWebTokenError
                    else if exp p \<le> now then Inl TokenExpiredError
                    else Inr p))"

definition days :: "nat \<Rightarrow> nat" where
  "days n = n * 86400"

definition generateToken :: "env \<Rightarrow> objectId \<Rightarrow> nat \<Rightarrow> token option" where
  "generateToken e uid now =
     jwt_sign uid None (JWT_SECRET e)
       (case JWT_EXPIRES_IN e of Some d \<Rightarrow> d | None \<Rightarrow> days 7) now"

definition generateRefreshToken :: "env \<Rightarrow> objectId \<Rightarrow> nat \<Rightarrow> token option" where
  "generateRefreshToken e uid now =
     jwt_sign uid (Some ''refresh'') (or_else (JWT_REFRESH_SECRET e) (JWT_SECRET e)) (days 30) now"

definition verifyRefreshToken :: "env \<Rightarrow> token \<Rightarrow> nat \<Rightarrow> jwt_payload option" where
  "verifyRefreshToken e t now =
     (case jwt_verify t (or_else (JWT_REFRESH_SECRET e) (JWT_SECRET e)) now of
        Inl err \<Rightarrow> None
      | Inr decoded \<Rightarrow> if type decoded \<noteq> Some ''refresh'' then None else Some decoded)"

subsection \<open>Authentication middleware\<close>

text \<open>
  The \<^verbatim>\<open>Authorization\<close> header is given as its pieces between spaces
  (\<^verbatim>\<open>authHeader.split(' ')\<close>), each piece a token or text: \<^verbatim>\<open>Bearer TOKEN\<close> is
  \<open>[Opaque ''Bearer'', TOKEN]\<close>. \<open>bearer_token\<close> is
  \<^verbatim>\<open>authHeader && authHeader.split(' ')[1]\<close> followed by the test \<^verbatim>\<open>if (!token)\<close>.
\<close>

definition bearer_token :: "token list option \<Rightarrow> token option" where
  "bearer_token authHeader =
     (case authHeader of
        None \<Rightarrow> None
      | Some pieces \<Rightarrow>
          (case pieces of
             a # t # rest \<Rightarrow> (if t = Opaque [] then None else Some t)
           | _ \<Rightarrow> None))"

datatype 'a middleware = Respond http_error | Next 'a

definition authenticateToken ::
  "env \<Rightarrow> (objectId \<rightharpoonup> user) \<Rightarrow> token list option \<Rightarrow> nat \<Rightarrow> user middleware" where
  "authenticateToken e users authHeader now =
     (case bearer_token authHeader of
        None \<Rightarrow> Respond (Failure 401 ''MISSING_TOKEN'')
      | Some t \<Rightarrow>
          (case jwt_verify t (JWT_SECRET e) now of
             Inl JsonWebTokenError \<Rightarrow> Respond (Failure 401 ''INVALID_TOKEN'')
           | Inl TokenExpiredError \<Rightarrow> Respond (Failure 401 ''TOKEN_EXPIRED'')
           | Inr decoded \<Rightarrow>
               (case users (userId decoded) of
                  None \<Rightarrow> Respond (Failure 401 ''USER_NOT_FOUND'')
                | Some u \<Rightarrow>
                    if \<not> isActive u then Respond (Failure 401 ''ACCOUNT_DEACTIVATED'')
                    else Next u)))"

definition requireAdmin :: "user \<Rightarrow> unit middleware" where
  "requireAdmin u =
     (if role u \<noteq> ''admin'' then Respond (Failure 403 ''INSUFFICIENT_PERMISSIONS'')
      else Next ())"

text \<open>
  \<open>optionalAuth\<close>: the body of the \<^verbatim>\<open>try\<close> either throws or leaves \<^verbatim>\<open>req.user\<close>; the
  \<^verbatim>\<open>catch\<close> calls \<^verbatim>\<open>next()\<close> without a user.
\<close>

definition optionalAuth_try ::
  "env \<Rightarrow> (objectId \<rightharpoonup> user) \<Rightarrow> token list option \<Rightarrow> nat \<Rightarrow> jwt_error + user option" where
  "optionalAuth_try e users authHeader now =
     (case bearer_token authHeader of
        None \<Rightarrow> Inr None
      | Some t \<Rightarrow>
          (case jwt_verify t (JWT_SECRET e) now of
             Inl err \<Rightarrow> Inl err
           | Inr decoded \<Rightarrow>
               (case users (userId decoded) of
                  None \<Rightarrow> Inr None
                | Some u \<Rightarrow> if isActive u then Inr (Some u) else Inr None)))"

definition optionalAuth ::
  "env \<Rightarrow> (objectId \<rightharpoonup> user) \<Rightarrow> token list option \<Rightarrow> nat \<Rightarrow> user option middleware" where
  "optionalAuth e users authHeader now =
     (case optionalAuth_try e users authHeader now of
        Inl err \<Rightarrow> Next None
      | Inr u \<Rightarrow> Next u)"

subsection \<open>Strings\<close>

text \<open>
  \<^verbatim>\<open>trim\<close> (the sanitizer of express-validator and the schema option \<^verbatim>\<open>trim: true\<close>),
  \<^verbatim>\<open>toLowerCase\<close> and \<^verbatim>\<open>includes\<close>, on ASCII.
\<close>

definition is_space :: "char \<Rightarrow> bool" where
  "is_space c = (c \<in> set [CHR '' '', CHR 0x09, CHR 0x0A, CHR 0x0B, CHR 0x0C, CHR 0x0D])"

definition trim :: "string \<Rightarrow> string" where
  "trim s = rev (dropWhile is_space (rev (dropWhile is_space s)))"

definition lower_char :: "char \<Rightarrow> char" where
  "lower_char c =
     (let n = (of_char c :: nat) in if 65 \<le> n \<and> n \<le> 90 then char_of (n + 32) else c)"

definition toLowerCase :: "string \<Rightarrow> string" where
  "toLowerCase s = map lower_char s"

fun includes_str :: "string \<Rightarrow> string \<Rightarrow> bool" where
  "includes_str [] sub = (sub = [])"
| "includes_str (c # cs) sub = (take (length sub) (c # cs) = sub \<or> includes_str cs sub)"

definition truthy :: "string option \<Rightarrow> bool" where
  "truthy s = (case s of None \<Rightarrow> False | Some t \<Rightarrow> t \<noteq> [])"

subsection \<open>The report document\<close>

record location =
  address :: string
  lat :: rat
  lng :: rat
  city :: string
  state :: "string option"
  zipCode :: "string option"

record image =
  url :: string
  publicId :: "string option"
  caption :: "string option"

record status_entry =
  entry_status :: string
  changedBy :: "objectId option"
  changedAt :: date
  entry_comment :: "string option"

record admin_comment =
  comment :: string
  commentedBy :: objectId
  commentedAt :: date

record upvote =
  user :: objectId
  votedAt :: date

record metadata =
  deviceInfo :: "string option"
  ipAddress :: "string option"
  userAgent :: "string option"

record report =
  title :: string
  description :: string
  category :: string
  status :: string
  priority :: string
  location :: location
  images :: "image list"
  reportedBy :: objectId
  assignedTo :: "objectId option"
  statusHistory :: "status_entry list"
  adminComments :: "admin_comment list"
  upvotes :: "upvote list"
  isPublic :: bool
  resolvedAt :: "date option"
  estimatedResolutionTime :: "date option"
  tags :: "string list"
  meta :: metadata
  createdAt :: "date option"
  updatedAt :: "date option"

record db =
  users :: "objectId \<rightharpoonup> user"
  reports :: "objectId \<rightharpoonup> report"

definition categories :: "string list" where
  "categories = [''road'', ''water'', ''electricity'', ''cleanliness'', ''streetlight'',
     ''drainage'', ''traffic'', ''noise'', ''construction'', ''safety'', ''other'']"

definition statuses :: "string list" where
  "statuses = [''pending'', ''in_progress'', ''resolved'', ''rejected'']"

definition priorities :: "string list" where
  "priorities = [''low'', ''medium'', ''high'', ''urgent'']"

subsection \<open>Schema validators\<close>

text \<open>
  The validators that \<^verbatim>\<open>reportSchema\<close> declares, one definition per path. The title has
  \<^verbatim>\<open>required\<close> and \<^verbatim>\<open>maxlength\<close> only; the description has \<^verbatim>\<open>minlength\<close> as well.
\<close>

definition title_ok :: "string \<Rightarrow> bool" where
  "title_ok t = (t \<noteq> [] \<and> length t \<le> 100)"

definition description_ok :: "string \<Rightarrow> bool" where
  "description_ok d = (d \<noteq> [] \<and> 20 \<le> length d \<and> length d \<le> 1000)"

definition location_ok :: "location \<Rightarrow> bool" where
  "location_ok l =
     (address l \<noteq> [] \<and> - 90 \<le> lat l \<and> lat l \<le> 90 \<and> - 180 \<le> lng l \<and> lng l \<le> 180
      \<and> city l \<noteq> [])"

definition images_ok :: "image list \<Rightarrow> bool" where
  "images_ok imgs = list_all (\<lambda>i. url i \<noteq> []) imgs"

definition validate :: "report \<Rightarrow> bool" where
  "validate r =
     (title_ok (title r) \<and> description_ok (description r)
      \<and> category r \<in> set categories \<and> status r \<in> set statuses \<and> priority r \<in> set priorities
      \<and> location_ok (location r) \<and> images_ok (images r)
      \<and> list_all (\<lambda>h. entry_status h \<in> set statuses) (statusHistory r)
      \<and> list_all (\<lambda>c. comment c \<noteq> []) (adminComments r))"

text \<open>The setters of the schema (\<^verbatim>\<open>trim: true\<close>) on the location paths.\<close>

definition trim_location :: "location \<Rightarrow> location" where
  "trim_location l =
     l\<lparr>address := trim (address l), city := trim (city l),
       state := map_option trim (state l), zipCode := map_option trim (zipCode l)\<rparr>"

subsection \<open>Saving a document\<close>

text \<open>
  The hook \<^verbatim>\<open>reportSchema.pre('save')\<close>. \<open>isNew\<close> is \<^verbatim>\<open>this.isNew\<close> and \<open>statusModified\<close> is
  \<^verbatim>\<open>this.isModified('status')\<close>.
\<close>

definition pre_save :: "bool \<Rightarrow> bool \<Rightarrow> date \<Rightarrow> report \<Rightarrow> report" where
  "pre_save isNew statusModified now r =
     (if statusModified \<and> \<not> isNew then
        let r1 = r\<lparr>statusHistory := statusHistory r @
                     [\<lparr>entry_status = status r, changedBy = None, changedAt = now,
                       entry_comment = None\<rparr>]\<rparr>
        in if status r1 = ''resolved'' then r1\<lparr>resolvedAt := Some now\<rparr> else r1
      else r)"

text \<open>
  The hook of the option \<^verbatim>\<open>timestamps: true\<close> on \<^verbatim>\<open>save\<close>: a stored document that was
  loaded as \<open>loaded\<close> and changed to \<open>r\<close> gets a new \<^verbatim>\<open>updatedAt\<close> when it was modified.
\<close>

definition stamp_updatedAt :: "report \<Rightarrow> report \<Rightarrow> date \<Rightarrow> report" where
  "stamp_updatedAt loaded r now = (if r \<noteq> loaded then r\<lparr>updatedAt := Some now\<rparr> else r)"

text \<open>
  \<^verbatim>\<open>report.save()\<close> on a document that was loaded as \<open>loaded\<close> and changed to \<open>r\<close>: the
  document is validated (a failure throws, \<open>None\<close>), the hooks run, and the result is
  written. Assigning to \<^verbatim>\<open>status\<close> marks the path modified when the value differs from the
  loaded one.
\<close>

definition save :: "objectId \<Rightarrow> report \<Rightarrow> report \<Rightarrow> date \<Rightarrow> db \<Rightarrow> (report \<times> db) option" where
  "save rid loaded r now d =
     (if \<not> validate r then None
      else let r' = pre_save False (status r \<noteq> status loaded) now (stamp_updatedAt loaded r now)
           in Some (r', d\<lparr>reports := (reports d)(rid \<mapsto> r')\<rparr>))"

text \<open>
  \<^verbatim>\<open>save()\<close> on a document made by \<^verbatim>\<open>new Report(...)\<close>: \<^verbatim>\<open>isNew\<close> holds, every path
  counts as modified and both stamps are set; an insert under a key in use fails.
\<close>

definition save_new :: "objectId \<Rightarrow> report \<Rightarrow> date \<Rightarrow> db \<Rightarrow> (report \<times> db) option" where
  "save_new rid r now d =
     (if \<not> validate r then None
      else if rid \<in> dom (reports d) then None
      else let r' = pre_save True True now (r\<lparr>createdAt := Some now, updatedAt := Some now\<rparr>)
           in Some (r', d\<lparr>reports := (reports d)(rid \<mapsto> r')\<rparr>))"

subsection \<open>Creating a report: \<^verbatim>\<open>POST /api/reports\<close>\<close>

text \<open>
  The body fields that the create and the update handler destructure. A location is
  given whole (its four required members and the two optional ones) or not at all.
\<close>

record report_body =
  rb_title :: string
  rb_description :: string
  rb_category :: string
  rb_location :: "location option"
  rb_images :: "image list option"
  rb_priority :: "string option"
  rb_tags :: "string list option"
  rb_isPublic :: "bool option"

text \<open>
  \<open>createReportValidation\<close>: the sanitizers (\<^verbatim>\<open>trim()\<close>) rewrite the body, the validators
  run on the rewritten values, and the messages of those that fail are collected.
\<close>

definition sanitize_report_body :: "report_body \<Rightarrow> report_body" where
  "sanitize_report_body b =
     b\<lparr>rb_title := trim (rb_title b), rb_description := trim (rb_description b),
       rb_location := map_option (\<lambda>l. l\<lparr>address := trim (address l), city := trim (city l)\<rparr>)
                        (rb_location b)\<rparr>"

definition createReportValidation :: "report_body \<Rightarrow> string list" where
  "createReportValidation b =
     (if 5 \<le> length (rb_title b) \<and> length (rb_title b) \<le> 100 then []
      else [''Title must be between 5 and 100 characters''])
     @ (if 20 \<le> length (rb_description b) \<and> length (rb_description b) \<le> 1000 then []
        else [''Description must be between 20 and 1000 characters''])
     @ (if rb_category b \<in> set categories then [] else [''Invalid category''])
     @ (case rb_location b of
          None \<Rightarrow> [''Address is required'', ''Invalid latitude'', ''Invalid longitude'',
                    ''City is required'']
        | Some l \<Rightarrow>
            (if address l \<noteq> [] then [] else [''Address is required''])
            @ (if - 90 \<le> lat l \<and> lat l \<le> 90 then [] else [''Invalid latitude''])
            @ (if - 180 \<le> lng l \<and> lng l \<le> 180 then [] else [''Invalid longitude''])
            @ (if city l \<noteq> [] then [] else [''City is required'']))
     @ (case rb_priority b of
          None \<Rightarrow> []
        | Some p \<Rightarrow> if p \<in> set priorities then [] else [''Invalid priority level''])"

text \<open>
  \<^verbatim>\<open>new Report({...})\<close> of the create handler: the schema defaults fill the paths that
  the handler does not pass (\<^verbatim>\<open>status\<close> is \<^verbatim>\<open>'pending'\<close>, the arrays are empty).
\<close>

definition new_report ::
  "report_body \<Rightarrow> location \<Rightarrow> objectId \<Rightarrow> string option \<Rightarrow> string option \<Rightarrow> report" where
  "new_report b l owner ua ip =
     \<lparr>title = trim (rb_title b),
      description = trim (rb_description b),
      category = rb_category b,
      status = ''pending'',
      priority = (case rb_priority b of
                    Some p \<Rightarrow> (if p \<noteq> [] then p else ''medium'')
                  | None \<Rightarrow> ''medium''),
      location = trim_location l,
      images = (case rb_images b of Some imgs \<Rightarrow> imgs | None \<Rightarrow> []),
      reportedBy = owner,
      assignedTo = None,
      statusHistory = [],
      adminComments = [],
      upvotes = [],
      isPublic = (rb_isPublic b \<noteq> Some False),
      resolvedAt = None,
      estimatedResolutionTime = None,
      tags = (case rb_tags b of Some ts \<Rightarrow> ts | None \<Rightarrow> []),
      meta = \<lparr>deviceInfo = None, ipAddress = ip, userAgent = ua\<rparr>,
      createdAt = None,
      updatedAt = None\<rparr>"

text \<open>
  The handler, after \<open>authenticateToken\<close> has set \<^verbatim>\<open>req.user\<close> to \<open>actor\<close>. \<open>rid\<close> is the
  ObjectId that the new document receives.
\<close>

definition create_report ::
  "user \<Rightarrow> objectId \<Rightarrow> report_body \<Rightarrow> string option \<Rightarrow> string option \<Rightarrow> date \<Rightarrow> db
     \<Rightarrow> (http_error + report) \<times> db" where
  "create_report actor rid body ua ip now d =
     (let b = sanitize_report_body body; errors = createReportValidation b in
      if errors \<noteq> [] then (Inl (ValidationFailed errors), d)
      else (case rb_location b of
              None \<Rightarrow> (Inl (Failure 500 ''REPORT_CREATE_ERROR''), d)
            | Some l \<Rightarrow>
                (case save_new rid (new_report b l (user_id actor) ua ip) now d of
                   None \<Rightarrow> (Inl (Failure 500 ''REPORT_CREATE_ERROR''), d)
                 | Some (r, d') \<Rightarrow> (Inr r, d'))))"

subsection \<open>Viewing a report: \<^verbatim>\<open>GET /api/reports/:id\<close>\<close>

definition canEdit :: "report \<Rightarrow> objectId \<Rightarrow> string \<Rightarrow> bool" where
  "canEdit r uid userRole = (userRole = ''admin'' \<or> reportedBy r = uid)"

record report_view =
  rv_report :: report
  rv_upvoteCount :: nat
  rv_hasUserUpvoted :: bool

text \<open>
  The handler reads the owner through the populated path
  (\<^verbatim>\<open>report.reportedBy._id\<close>) when the report is private and the request has a user;
  \<^verbatim>\<open>populate\<close> leaves \<^verbatim>\<open>null\<close> for an owner that is not stored, and the read then throws.
\<close>

definition get_report :: "user option \<Rightarrow> objectId \<Rightarrow> db \<Rightarrow> http_error + report_view" where
  "get_report req_user rid d =
     (case reports d rid of
        None \<Rightarrow> Inl (Failure 404 ''REPORT_NOT_FOUND'')
      | Some r \<Rightarrow>
          if \<not> isPublic r \<and> req_user \<noteq> None \<and> users d (reportedBy r) = None
          then Inl (Failure 500 ''REPORT_FETCH_ERROR'')
          else if \<not> isPublic r \<and>
             (case req_user of
                None \<Rightarrow> True
              | Some u \<Rightarrow> user_id u \<noteq> reportedBy r \<and> role u \<noteq> ''admin'')
          then Inl (Failure 403 ''ACCESS_DENIED'')
          else Inr \<lparr>rv_report = r,
                    rv_upvoteCount = length (upvotes r),
                    rv_hasUserUpvoted =
                      (case req_user of
                         None \<Rightarrow> False
                       | Some u \<Rightarrow> list_ex (\<lambda>v. user v = user_id u) (upvotes r))\<rparr>)"

text \<open>The route: \<open>optionalAuth\<close>, then the handler.\<close>

definition get_report_route ::
  "env \<Rightarrow> token list option \<Rightarrow> nat \<Rightarrow> objectId \<Rightarrow> db \<Rightarrow> http_error + report_view" where
  "get_report_route e authHeader now rid d =
     (case optionalAuth e (users d) authHeader now of
        Respond err \<Rightarrow> Inl err
      | Next req_user \<Rightarrow> get_report req_user rid d)"

subsection \<open>Listing reports: \<^verbatim>\<open>GET /api/reports\<close>\<close>

text \<open>
  The query string. \<open>q_page\<close> and \<open>q_limit\<close> are the integers that the texts denote
  (\<^verbatim>\<open>parseInt\<close>); the other parameters are texts, absent as \<open>None\<close>.
\<close>

record list_query =
  q_page :: "int option"
  q_limit :: "int option"
  q_status :: "string option"
  q_category :: "string option"
  q_city :: "string option"
  q_priority :: "string option"
  q_sortBy :: "string option"
  q_sortOrder :: "string option"
  q_search :: "string option"

text \<open>A test of a value that may be absent.\<close>

definition opt_ok :: "('a \<Rightarrow> bool) \<Rightarrow> 'a option \<Rightarrow> bool" where
  "opt_ok P x = (case x of None \<Rightarrow> True | Some v \<Rightarrow> P v)"

definition optional_check :: "('a \<Rightarrow> bool) \<Rightarrow> string \<Rightarrow> 'a option \<Rightarrow> string list" where
  "optional_check ok message x =
     (case x of None \<Rightarrow> [] | Some v \<Rightarrow> if ok v then [] else [message])"

definition listValidation :: "list_query \<Rightarrow> string list" where
  "listValidation q =
     optional_check (\<lambda>p. 1 \<le> p) ''Page must be a positive integer'' (q_page q)
     @ optional_check (\<lambda>l. 1 \<le> l \<and> l \<le> 50) ''Limit must be between 1 and 50'' (q_limit q)
     @ optional_check (\<lambda>s. s \<in> set statuses) ''Invalid status filter'' (q_status q)
     @ optional_check (\<lambda>c. c \<in> set categories) ''Invalid category filter'' (q_category q)
     @ optional_check (\<lambda>c. 2 \<le> length c) ''City must be at least 2 characters'' (q_city q)
     @ optional_check (\<lambda>s. s \<in> set [''createdAt'', ''updatedAt'', ''priority'', ''upvoteCount''])
         ''Invalid sort field'' (q_sortBy q)
     @ optional_check (\<lambda>s. s \<in> set [''asc'', ''desc'']) ''Sort order must be asc or desc''
         (q_sortOrder q)"

text \<open>
  The filter document that the handler builds (\<^verbatim>\<open>const query = { isPublic: true }\<close> and the
  \<^verbatim>\<open>if (x) query.x = ...\<close> lines); \<open>f_city\<close> and \<open>f_search\<close> are the sources of the
  case-insensitive regular expressions.
\<close>

record report_filter =
  f_isPublic :: bool
  f_status :: "string option"
  f_category :: "string option"
  f_city :: "string option"
  f_priority :: "string option"
  f_search :: "string option"

definition if_given :: "string option \<Rightarrow> string option" where
  "if_given x = (if truthy x then x else None)"

text \<open>
  What the handler takes from outside the repository: whether \<^verbatim>\<open>new RegExp(source, 'i')\<close>
  accepts a source (it throws otherwise), and the database,
  \<^verbatim>\<open>Report.find(query).sort(sortOptions).skip(skip).limit(limit)\<close> and
  \<^verbatim>\<open>Report.countDocuments(query)\<close>.
\<close>

record query_engine =
  regexp_compiles :: "string \<Rightarrow> bool"
  find_reports :: "report_filter \<Rightarrow> string \<times> int \<Rightarrow> nat \<Rightarrow> nat \<Rightarrow> db \<Rightarrow> report list"
  countDocuments :: "report_filter \<Rightarrow> db \<Rightarrow> nat"

record pagination =
  currentPage :: int
  totalPages :: int
  totalReports :: nat
  hasNextPage :: bool
  hasPrevPage :: bool

record list_response =
  lr_reports :: "report_view list"
  lr_pagination :: pagination

definition with_metadata :: "user option \<Rightarrow> report \<Rightarrow> report_view" where
  "with_metadata req_user r =
     \<lparr>rv_report = r,
      rv_upvoteCount = length (upvotes r),
      rv_hasUserUpvoted =
        (case req_user of
           None \<Rightarrow> False
         | Some u \<Rightarrow> list_ex (\<lambda>vote. user vote = user_id u) (upvotes r))\<rparr>"

definition list_reports ::
  "query_engine \<Rightarrow> user option \<Rightarrow> list_query \<Rightarrow> db \<Rightarrow> http_error + list_response" where
  "list_reports engine req_user query d =
     (let q = query\<lparr>q_city := map_option trim (q_city query)\<rparr>; errors = listValidation q in
      if errors \<noteq> [] then Inl (ValidationFailed errors)
      else if \<not> opt_ok (regexp_compiles engine) (if_given (q_city q))
              \<or> \<not> opt_ok (regexp_compiles engine) (if_given (q_search q))
      then Inl (Failure 500 ''REPORTS_FETCH_ERROR'')
      else
        let page = (case q_page q of Some p \<Rightarrow> p | None \<Rightarrow> 1);
            limit = (case q_limit q of Some l \<Rightarrow> l | None \<Rightarrow> 10);
            sortBy = (case q_sortBy q of Some s \<Rightarrow> s | None \<Rightarrow> ''createdAt'');
            sortOrder = (case q_sortOrder q of Some s \<Rightarrow> s | None \<Rightarrow> ''desc'');
            filter = \<lparr>f_isPublic = True, f_status = if_given (q_status q),
                      f_category = if_given (q_category q), f_city = if_given (q_city q),
                      f_priority = if_given (q_priority q), f_search = if_given (q_search q)\<rparr>;
            sortOptions = (sortBy, if sortOrder = ''desc'' then - 1 else 1);
            skip = nat ((page - 1) * limit);
            found = find_reports engine filter sortOptions skip (nat limit) d;
            reportsWithMetadata = map (with_metadata req_user) found;
            total = countDocuments engine filter d;
            pages = (int total + limit - 1) div limit
        in Inr \<lparr>lr_reports = reportsWithMetadata,
                 lr_pagination =
                   \<lparr>currentPage = page, totalPages = pages, totalReports = total,
                    hasNextPage = (page < pages), hasPrevPage = (1 < page)\<rparr>\<rparr>)"

text \<open>The route: \<open>optionalAuth\<close>, then the validators and the handler.\<close>

definition list_reports_route ::
  "env \<Rightarrow> query_engine \<Rightarrow> token list option \<Rightarrow> nat \<Rightarrow> list_query \<Rightarrow> db
     \<Rightarrow> http_error + list_response" where
  "list_reports_route e engine authHeader now query d =
     (case optionalAuth e (users d) authHeader now of
        Respond err \<Rightarrow> Inl err
      | Next req_user \<Rightarrow> list_reports engine req_user query d)"

subsection \<open>Updating the content of a report: \<^verbatim>\<open>PUT /api/reports/:id\<close>\<close>

record update_data =
  ud_title :: "string option"
  ud_description :: "string option"
  ud_category :: "string option"
  ud_location :: "location option"
  ud_images :: "image list option"
  ud_priority :: "string option"
  ud_tags :: "string list option"
  ud_isPublic :: "bool option"

text \<open>\<^verbatim>\<open>if (x) updateData.x = x\<close> for a string \<open>x\<close>.\<close>

definition if_set :: "string \<Rightarrow> string option" where
  "if_set x = (if x \<noteq> [] then Some x else None)"

definition updateData :: "report_body \<Rightarrow> update_data" where
  "updateData b =
     \<lparr>ud_title = if_set (rb_title b),
      ud_description = if_set (rb_description b),
      ud_category = if_set (rb_category b),
      ud_location = rb_location b,
      ud_images = rb_images b,
      ud_priority = (if truthy (rb_priority b) then rb_priority b else None),
      ud_tags = rb_tags b,
      ud_isPublic = rb_isPublic b\<rparr>"

text \<open>
  \<^verbatim>\<open>Report.findByIdAndUpdate(id, updateData, {new: true, runValidators: true})\<close>: the
  update is cast with the setters of the schema, the validators of the paths it sets run
  (a failure throws, the outer \<open>None\<close>), and the paths are set. The option
  \<^verbatim>\<open>timestamps: true\<close> adds \<^verbatim>\<open>updatedAt\<close> to every update, also to one that sets no other
  path. The \<^verbatim>\<open>save\<close> hook does not run on this operation. The inner \<open>None\<close> is \<^verbatim>\<open>null\<close>,
  for an id that is not stored.
\<close>

definition cast_update :: "update_data \<Rightarrow> update_data" where
  "cast_update u =
     u\<lparr>ud_title := map_option trim (ud_title u),
       ud_description := map_option trim (ud_description u),
       ud_location := map_option trim_location (ud_location u)\<rparr>"

definition update_validators :: "update_data \<Rightarrow> bool" where
  "update_validators u =
     (opt_ok title_ok (ud_title u) \<and> opt_ok description_ok (ud_description u)
      \<and> opt_ok (\<lambda>c. c \<in> set categories) (ud_category u)
      \<and> opt_ok location_ok (ud_location u) \<and> opt_ok images_ok (ud_images u)
      \<and> opt_ok (\<lambda>p. p \<in> set priorities) (ud_priority u))"

definition apply_update :: "update_data \<Rightarrow> date \<Rightarrow> report \<Rightarrow> report" where
  "apply_update u now r =
     r\<lparr>title := (case ud_title u of Some v \<Rightarrow> v | None \<Rightarrow> title r),
       description := (case ud_description u of Some v \<Rightarrow> v | None \<Rightarrow> description r),
       category := (case ud_category u of Some v \<Rightarrow> v | None \<Rightarrow> category r),
       location := (case ud_location u of Some v \<Rightarrow> v | None \<Rightarrow> location r),
       images := (case ud_images u of Some v \<Rightarrow> v | None \<Rightarrow> images r),
       priority := (case ud_priority u of Some v \<Rightarrow> v | None \<Rightarrow> priority r),
       tags := (case ud_tags u of Some v \<Rightarrow> v | None \<Rightarrow> tags r),
       isPublic := (case ud_isPublic u of Some v \<Rightarrow> v | None \<Rightarrow> isPublic r),
       updatedAt := Some now\<rparr>"

definition findByIdAndUpdate ::
  "objectId \<Rightarrow> update_data \<Rightarrow> date \<Rightarrow> db \<Rightarrow> (report option \<times> db) option" where
  "findByIdAndUpdate rid u now d =
     (let c = cast_update u in
      if \<not> update_validators c then None
      else (case reports d rid of
              None \<Rightarrow> Some (None, d)
            | Some r \<Rightarrow>
                let r' = apply_update c now r
                in Some (Some r', d\<lparr>reports := (reports d)(rid \<mapsto> r')\<rparr>)))"

definition update_report ::
  "user \<Rightarrow> objectId \<Rightarrow> report_body \<Rightarrow> date \<Rightarrow> db \<Rightarrow> (http_error + report option) \<times> db" where
  "update_report actor rid body now d =
     (case reports d rid of
        None \<Rightarrow> (Inl (Failure 404 ''REPORT_NOT_FOUND''), d)
      | Some r \<Rightarrow>
          if \<not> canEdit r (user_id actor) (role actor)
          then (Inl (Failure 403 ''ACCESS_DENIED''), d)
          else (case findByIdAndUpdate rid (updateData body) now d of
                  None \<Rightarrow> (Inl (Failure 500 ''REPORT_UPDATE_ERROR''), d)
                | Some (updatedReport, d') \<Rightarrow> (Inr updatedReport, d')))"

subsection \<open>Upvotes: \<^verbatim>\<open>POST /api/reports/:id/upvote\<close>\<close>

definition addUpvote :: "objectId \<Rightarrow> report \<Rightarrow> objectId \<Rightarrow> date \<Rightarrow> db \<Rightarrow> (report \<times> db) option" where
  "addUpvote rid r uid now d =
     (case find (\<lambda>vote. user vote = uid) (upvotes r) of
        None \<Rightarrow> save rid r (r\<lparr>upvotes := upvotes r @ [\<lparr>user = uid, votedAt = now\<rparr>]\<rparr>) now d
      | Some existingVote \<Rightarrow> Some (r, d))"

definition removeUpvote :: "objectId \<Rightarrow> report \<Rightarrow> objectId \<Rightarrow> date \<Rightarrow> db \<Rightarrow> (report \<times> db) option" where
  "removeUpvote rid r uid now d =
     save rid r (r\<lparr>upvotes := filter (\<lambda>vote. user vote \<noteq> uid) (upvotes r)\<rparr>) now d"

record upvote_response =
  upvoted :: bool
  upvoteCount :: nat

definition toggle_upvote ::
  "user \<Rightarrow> objectId \<Rightarrow> date \<Rightarrow> db \<Rightarrow> (http_error + upvote_response) \<times> db" where
  "toggle_upvote actor rid now d =
     (case reports d rid of
        None \<Rightarrow> (Inl (Failure 404 ''REPORT_NOT_FOUND''), d)
      | Some r \<Rightarrow>
          if list_ex (\<lambda>vote. user vote = user_id actor) (upvotes r)
          then (case removeUpvote rid r (user_id actor) now d of
                  None \<Rightarrow> (Inl (Failure 500 ''UPVOTE_ERROR''), d)
                | Some (r', d') \<Rightarrow>
                    (Inr \<lparr>upvoted = False, upvoteCount = length (upvotes r')\<rparr>, d'))
          else (case addUpvote rid r (user_id actor) now d of
                  None \<Rightarrow> (Inl (Failure 500 ''UPVOTE_ERROR''), d)
                | Some (r', d') \<Rightarrow>
                    (Inr \<lparr>upvoted = True, upvoteCount = length (upvotes r')\<rparr>, d')))"

subsection \<open>The admin router\<close>

text \<open>
  Every route of the admin router runs \<open>authenticateToken\<close> and \<open>requireAdmin\<close> first; the
  handlers below receive the authenticated user as \<open>actor\<close>, and \<open>admin_route\<close> puts
  \<open>requireAdmin\<close> in front of a handler.
\<close>

definition admin_route ::
  "(user \<Rightarrow> db \<Rightarrow> (http_error + 'a) \<times> db) \<Rightarrow> user \<Rightarrow> db \<Rightarrow> (http_error + 'a) \<times> db" where
  "admin_route handler actor d =
     (case requireAdmin actor of
        Respond err \<Rightarrow> (Inl err, d)
      | Next u \<Rightarrow> handler actor d)"

subsubsection \<open>\<^verbatim>\<open>PUT /api/admin/reports/:id/status\<close>\<close>

text \<open>
  \<open>sb_estimatedResolutionTime\<close> is the instant that the ISO-8601 text of the body denotes.
\<close>

record status_body =
  sb_status :: string
  sb_comment :: "string option"
  sb_estimatedResolutionTime :: "date option"

definition updateStatusValidation :: "status_body \<Rightarrow> string list" where
  "updateStatusValidation b =
     (if sb_status b \<in> set statuses then [] else [''Invalid status''])
     @ (case sb_comment b of
          None \<Rightarrow> []
        | Some c \<Rightarrow>
            if length c \<le> 500 then [] else [''Comment cannot exceed 500 characters''])"

record status_response =
  sr_report :: report
  statusChanged :: bool

definition area_denied :: "user \<Rightarrow> report \<Rightarrow> bool" where
  "area_denied actor r =
     (case adminArea actor of
        None \<Rightarrow> False
      | Some area \<Rightarrow>
          area \<noteq> [] \<and> \<not> includes_str (toLowerCase (city (location r))) (toLowerCase area))"

definition update_status ::
  "objectId \<Rightarrow> status_body \<Rightarrow> date \<Rightarrow> user \<Rightarrow> db \<Rightarrow> (http_error + status_response) \<times> db" where
  "update_status rid body now actor d =
     (let b = body\<lparr>sb_comment := map_option trim (sb_comment body)\<rparr>;
          errors = updateStatusValidation b in
      if errors \<noteq> [] then (Inl (ValidationFailed errors), d)
      else (case reports d rid of
              None \<Rightarrow> (Inl (Failure 404 ''REPORT_NOT_FOUND''), d)
            | Some r \<Rightarrow>
                if area_denied actor r then (Inl (Failure 403 ''AREA_ACCESS_DENIED''), d)
                else
                  let oldStatus = status r;
                      r1 = r\<lparr>status := sb_status b\<rparr>;
                      r2 = (case sb_estimatedResolutionTime b of
                              Some t \<Rightarrow> r1\<lparr>estimatedResolutionTime := Some t\<rparr>
                            | None \<Rightarrow> r1);
                      r3 = r2\<lparr>statusHistory := statusHistory r2 @
                              [\<lparr>entry_status = sb_status b, changedBy = Some (user_id actor),
                                changedAt = now, entry_comment = sb_comment b\<rparr>]\<rparr>;
                      r4 = (if truthy (sb_comment b)
                            then r3\<lparr>adminComments := adminComments r3 @
                                   [\<lparr>comment = (case sb_comment b of Some c \<Rightarrow> c | None \<Rightarrow> []),
                                     commentedBy = user_id actor, commentedAt = now\<rparr>]\<rparr>
                            else r3)
                  in (case save rid r r4 now d of
                        None \<Rightarrow> (Inl (Failure 500 ''STATUS_UPDATE_ERROR''), d)
                      | Some (r', d') \<Rightarrow>
                          (Inr \<lparr>sr_report = r', statusChanged = (oldStatus \<noteq> sb_status b)\<rparr>,
                           d'))))"

subsubsection \<open>\<^verbatim>\<open>PUT /api/admin/reports/:id/assign\<close>\<close>

record assign_body =
  ab_assignedTo :: "objectId option"
  ab_comment :: "string option"

definition assignReportValidation :: "assign_body \<Rightarrow> string list" where
  "assignReportValidation b =
     (if ab_assignedTo b \<noteq> None then [] else [''Invalid user ID''])
     @ (case ab_comment b of
          None \<Rightarrow> []
        | Some c \<Rightarrow>
            if length c \<le> 500 then [] else [''Comment cannot exceed 500 characters''])"

definition assign_report ::
  "objectId \<Rightarrow> assign_body \<Rightarrow> date \<Rightarrow> user \<Rightarrow> db \<Rightarrow> (http_error + report) \<times> db" where
  "assign_report rid body now actor d =
     (let b = body\<lparr>ab_comment := map_option trim (ab_comment body)\<rparr>;
          errors = assignReportValidation b in
      if errors \<noteq> [] then (Inl (ValidationFailed errors), d)
      else (case reports d rid of
              None \<Rightarrow> (Inl (Failure 404 ''REPORT_NOT_FOUND''), d)
            | Some r \<Rightarrow>
                (case (case ab_assignedTo b of None \<Rightarrow> None | Some a \<Rightarrow> users d a) of
                   None \<Rightarrow> (Inl (Failure 400 ''INVALID_ADMIN_USER''), d)
                 | Some assignedUser \<Rightarrow>
                     if role assignedUser \<noteq> ''admin''
                     then (Inl (Failure 400 ''INVALID_ADMIN_USER''), d)
                     else
                       let r1 = r\<lparr>assignedTo := ab_assignedTo b\<rparr>;
                           assignmentComment =
                             (case ab_comment b of
                                Some c \<Rightarrow>
                                  if c \<noteq> [] then c
                                  else ''Report assigned to '' @ name assignedUser @ '' by ''
                                       @ name actor
                              | None \<Rightarrow>
                                  ''Report assigned to '' @ name assignedUser @ '' by ''
                                  @ name actor);
                           r2 = r1\<lparr>adminComments := adminComments r1 @
                                   [\<lparr>comment = assignmentComment, commentedBy = user_id actor,
                                     commentedAt = now\<rparr>]\<rparr>;
                           r3 = (if status r2 = ''pending''
                                 then r2\<lparr>status := ''in_progress'',
                                        statusHistory := statusHistory r2 @
                                          [\<lparr>entry_status = ''in_progress'',
                                            changedBy = Some (user_id actor), changedAt = now,
                                            entry_comment =
                                              Some ''Status updated due to assignment''\<rparr>]\<rparr>
                                 else r2)
                       in (case save rid r r3 now d of
                             None \<Rightarrow> (Inl (Failure 500 ''REPORT_ASSIGN_ERROR''), d)
                           | Some (r', d') \<Rightarrow> (Inr r', d')))))"

subsubsection \<open>\<^verbatim>\<open>POST /api/admin/reports/:id/comment\<close>\<close>

definition add_comment ::
  "objectId \<Rightarrow> string \<Rightarrow> date \<Rightarrow> user \<Rightarrow> db \<Rightarrow> (http_error + admin_comment) \<times> db" where
  "add_comment rid body_comment now actor d =
     (let c = trim body_comment in
      if \<not> (1 \<le> length c \<and> length c \<le> 500)
      then (Inl (ValidationFailed [''Comment must be between 1 and 500 characters'']), d)
      else (case reports d rid of
              None \<Rightarrow> (Inl (Failure 404 ''REPORT_NOT_FOUND''), d)
            | Some r \<Rightarrow>
                let r1 = r\<lparr>adminComments := adminComments r @
                             [\<lparr>comment = c, commentedBy = user_id actor, commentedAt = now\<rparr>]\<rparr>
                in (case save rid r r1 now d of
                      None \<Rightarrow> (Inl (Failure 500 ''COMMENT_ADD_ERROR''), d)
                    | Some (r', d') \<Rightarrow> (Inr (last (adminComments r')), d'))))"

subsection \<open>The invariant of the upvotes\<close>

text \<open>No stored report holds two votes of one user.\<close>

definition votes_once :: "db \<Rightarrow> bool" where
  "votes_once d = (\<forall>rid r. reports d rid = Some r \<longrightarrow> distinct (map user (upvotes r)))"

subsection \<open>A concrete deployment\<close>

text \<open>
  An environment that sets \<^verbatim>\<open>JWT_SECRET\<close> only, three users, and a stored report of the
  citizen \<open>alice\<close>; the concrete inputs of the evaluations below.
\<close>

definition env0 :: env where
  "env0 = \<lparr>JWT_SECRET = Some ''s3cret'', JWT_REFRESH_SECRET = None, JWT_EXPIRES_IN = None\<rparr>"

definition alice :: user where
  "alice = \<lparr>user_id = 1, name = ''Alice'', role = ''user'', adminArea = None, isActive = True\<rparr>"

definition bob :: user where
  "bob = \<lparr>user_id = 2, name = ''Bob'', role = ''admin'', adminArea = None, isActive = True\<rparr>"

definition carol :: user where
  "carol = \<lparr>user_id = 3, name = ''Carol'', role = ''admin'', adminArea = Some ''Lahore'',
            isActive = True\<rparr>"

definition dan :: user where
  "dan = \<lparr>user_id = 4, name = ''Dan'', role = ''user'', adminArea = None, isActive = True\<rparr>"

definition elm_street :: location where
  "elm_street = \<lparr>address = ''12 Elm St'', lat = 40, lng = - 75, city = ''Springfield'',
                 state = None, zipCode = None\<rparr>"

definition report0 :: report where
  "report0 =
     \<lparr>title = ''Broken streetlight on Elm St'',
      description = ''The lamp at the corner has been dark for a week.'',
      category = ''streetlight'',
      status = ''pending'',
      priority = ''medium'',
      location = elm_street,
      images = [],
      reportedBy = 1,
      assignedTo = None,
      statusHistory = [],
      adminComments = [],
      upvotes = [],
      isPublic = True,
      resolvedAt = None,
      estimatedResolutionTime = None,
      tags = [],
      meta = \<lparr>deviceInfo = None, ipAddress = None, userAgent = None\<rparr>,
      createdAt = Some 100,
      updatedAt = Some 100\<rparr>"

definition db0 :: db where
  "db0 = \<lparr>users = [1 \<mapsto> alice, 2 \<mapsto> bob, 3 \<mapsto> carol, 4 \<mapsto> dan],
          reports = [10 \<mapsto> report0]\<rparr>"

definition body0 :: report_body where
  "body0 =
     \<lparr>rb_title = ''Broken streetlight on Elm St'',
      rb_description = ''The lamp at the corner has been dark for a week.'',
      rb_category = ''streetlight'',
      rb_location = Some elm_street,
      rb_images = None,
      rb_priority = None,
      rb_tags = None,
      rb_isPublic = None\<rparr>"

definition set_status :: "string \<Rightarrow> status_body" where
  "set_status s = \<lparr>sb_status = s, sb_comment = None, sb_estimatedResolutionTime = None\<rparr>"

text \<open>
  A report that is resolved at time 1000, reopened at 2000 and resolved again at 3000,
  each time through the status endpoint.
\<close>

definition db1 :: db where
  "db1 = snd (update_status 10 (set_status ''resolved'') 1000 bob db0)"

definition db2 :: db where
  "db2 = snd (update_status 10 (set_status ''pending'') 2000 bob db1)"

definition db3 :: db where
  "db3 = snd (update_status 10 (set_status ''resolved'') 3000 bob db2)"

text \<open>
  A second deployment: the user \<open>erin\<close> is deactivated; \<open>alice\<close> has upvoted her public
  report, and owns a private report that was resolved by \<open>bob\<close>, carries a comment and a
  vote of \<open>dan\<close>, and was last written at time 1000.
\<close>

definition erin :: user where
  "erin = \<lparr>user_id = 5, name = ''Erin'', role = ''user'', adminArea = None, isActive = False\<rparr>"

definition report1 :: report where
  "report1 =
     \<lparr>title = ''Water leaking at the pump house'',
      description = ''Water has been running across the road since Monday.'',
      category = ''water'',
      status = ''resolved'',
      priority = ''high'',
      location = elm_street,
      images = [],
      reportedBy = 1,
      assignedTo = Some 2,
      statusHistory =
        [\<lparr>entry_status = ''resolved'', changedBy = Some 2, changedAt = 1000,
          entry_comment = Some ''Pipe replaced''\<rparr>,
         \<lparr>entry_status = ''resolved'', changedBy = None, changedAt = 1000,
          entry_comment = None\<rparr>],
      adminComments = [\<lparr>comment = ''Pipe replaced'', commentedBy = 2, commentedAt = 1000\<rparr>],
      upvotes = [\<lparr>user = 4, votedAt = 400\<rparr>],
      isPublic = False,
      resolvedAt = Some 1000,
      estimatedResolutionTime = None,
      tags = [''pump''],
      meta = \<lparr>deviceInfo = None, ipAddress = None, userAgent = None\<rparr>,
      createdAt = Some 300,
      updatedAt = Some 1000\<rparr>"

definition report2 :: report where
  "report2 = report0\<lparr>upvotes := [\<lparr>user = 1, votedAt = 350\<rparr>], updatedAt := Some 350\<rparr>"

definition db5 :: db where
  "db5 = \<lparr>users = [1 \<mapsto> alice, 2 \<mapsto> bob, 3 \<mapsto> carol, 4 \<mapsto> dan, 5 \<mapsto> erin],
          reports = [10 \<mapsto> report2, 12 \<mapsto> report1]\<rparr>"

text \<open>
  A query engine for the concrete deployments: it takes the sources without a
  metacharacter as regular expressions and finds them as texts, case-insensitively; it
  reads the reports 10 and 12 in this order, keeps those that the filter admits, ignores
  the sort options, and applies skip and limit.
\<close>

definition plain_text :: "string \<Rightarrow> bool" where
  "plain_text s = list_all (\<lambda>c. c \<notin> set ''.^$|?*+()[]{}'' \<and> c \<noteq> CHR 0x5C) s"

definition admits :: "report_filter \<Rightarrow> report \<Rightarrow> bool" where
  "admits f r =
     (isPublic r = f_isPublic f
      \<and> opt_ok (\<lambda>s. status r = s) (f_status f)
      \<and> opt_ok (\<lambda>c. category r = c) (f_category f)
      \<and> opt_ok (\<lambda>c. includes_str (toLowerCase (city (location r))) (toLowerCase c)) (f_city f)
      \<and> opt_ok (\<lambda>p. priority r = p) (f_priority f)
      \<and> opt_ok (\<lambda>t. includes_str (toLowerCase (title r)) (toLowerCase t)
                      \<or> includes_str (toLowerCase (description r)) (toLowerCase t)
                      \<or> includes_str (toLowerCase (address (location r))) (toLowerCase t))
           (f_search f))"

definition engine0 :: query_engine where
  "engine0 =
     \<lparr>regexp_compiles = plain_text,
      find_reports = (\<lambda>f sortOptions skip limit d.
        take limit (drop skip (filter (admits f) (List.map_filter (reports d) [10, 12])))),
      countDocuments = (\<lambda>f d. length (filter (admits f) (List.map_filter (reports d) [10, 12])))\<rparr>"

definition no_query :: list_query where
  "no_query = \<lparr>q_page = None, q_limit = None, q_status = None, q_category = None,
     q_city = None, q_priority = None, q_sortBy = None, q_sortOrder = None, q_search = None\<rparr>"

text \<open>Tokens for the request headers at time 200.\<close>

definition bearer :: "token \<Rightarrow> token list option" where
  "bearer t = Some [Opaque ''Bearer'', t]"

definition token_of :: "objectId \<Rightarrow> nat \<Rightarrow> string \<Rightarrow> token" where
  "token_of uid expiry secret =
     Signed \<lparr>userId = uid, type = None, iat = 0, exp = expiry\<rparr> secret"

text \<open>A patch of the owner that carries a title of four characters and nothing else.\<close>

definition short_title :: report_body where
  "short_title =
     \<lparr>rb_title = ''Pond'', rb_description = [], rb_category = [], rb_location = None,
      rb_images = None, rb_priority = None, rb_tags = None, rb_isPublic = None\<rparr>"

text \<open>A patch of the owner that carries a new title and nothing else.\<close>

definition retitle :: report_body where
  "retitle = short_title\<lparr>rb_title := ''Pump house is flooding the road''\<rparr>"

section \<open>Properties\<close>

subsection \<open>Auxiliary facts\<close>

text \<open>Trimming a trimmed string changes nothing.\<close>

lemma dropWhile_rev_suffix:
  assumes "dropWhile P xs = xs"
  shows "dropWhile P (rev (dropWhile P (rev xs))) = rev (dropWhile P (rev xs))"
proof (cases "dropWhile P (rev xs) = []")
  case True
  show ?thesis unfolding True by simp
next
  case False
  define b where "b = dropWhile P (rev xs)"
  have split: "rev xs = takeWhile P (rev xs) @ b"
    by (simp add: b_def)
  from False have bne: "b \<noteq> []" by (simp add: b_def)
  then have "last b = last (rev xs)"
    using split by (metis last_appendR)
  moreover have "xs \<noteq> []" using False by auto
  ultimately have lb: "last b = hd xs" by (simp add: last_rev)
  have "\<not> P (hd xs)"
    using assms \<open>xs \<noteq> []\<close> by (metis hd_dropWhile)
  then have "\<not> P (hd (rev b))" using lb bne by (simp add: hd_rev)
  moreover have "rev b \<noteq> []" using bne by simp
  ultimately have "dropWhile P (rev b) = rev b"
    by (cases "rev b") auto
  then show ?thesis by (simp add: b_def)
qed

lemma trim_idem: "trim (trim s) = trim s"
proof -
  have a: "dropWhile is_space (dropWhile is_space s) = dropWhile is_space s"
    by simp
  show ?thesis
    unfolding trim_def
    by (simp add: dropWhile_rev_suffix [OF a])
qed

text \<open>A document whose history, comments or votes were changed is stamped on \<open>save\<close>.\<close>

lemma stamp_updatedAt_modified:
  assumes "statusHistory r' \<noteq> statusHistory r \<or> adminComments r' \<noteq> adminComments r
           \<or> upvotes r' \<noteq> upvotes r"
  shows "stamp_updatedAt r r' now = r'\<lparr>updatedAt := Some now\<rparr>"
proof -
  from assms have "r' \<noteq> r" by auto
  then show ?thesis by (simp add: stamp_updatedAt_def)
qed

lemma stamp_updatedAt_fields:
  "status (stamp_updatedAt r r' now) = status r'"
  "statusHistory (stamp_updatedAt r r' now) = statusHistory r'"
  "adminComments (stamp_updatedAt r r' now) = adminComments r'"
  "upvotes (stamp_updatedAt r r' now) = upvotes r'"
  "resolvedAt (stamp_updatedAt r r' now) = resolvedAt r'"
  "assignedTo (stamp_updatedAt r r' now) = assignedTo r'"
  by (simp_all add: stamp_updatedAt_def)

text \<open>The definitions that an evaluation at a concrete input unfolds.\<close>

lemmas eval_defs =
  updateStatusValidation_def set_status_def statuses_def categories_def priorities_def
  db0_def report0_def alice_def bob_def carol_def dan_def elm_street_def
  area_denied_def save_def stamp_updatedAt_modified validate_def title_ok_def description_ok_def
  location_ok_def images_ok_def pre_save_def truthy_def Let_def

lemmas update_defs =
  update_report_def canEdit_def findByIdAndUpdate_def updateData_def short_title_def
  if_set_def cast_update_def update_validators_def opt_ok_def apply_update_def trim_def
  is_space_def

text \<open>
  What a successful status update leaves: the document that the handler built, stamped,
  after the hook.
\<close>

lemma update_status_InrD:
  assumes "reports d rid = Some r"
    and "update_status rid body now actor d = (Inr resp, d')"
  shows "sr_report resp =
           pre_save False (sb_status body \<noteq> status r) now
             (r\<lparr>status := sb_status body,
                estimatedResolutionTime :=
                  (case sb_estimatedResolutionTime body of
                     Some t \<Rightarrow> Some t | None \<Rightarrow> estimatedResolutionTime r),
                statusHistory := statusHistory r @
                  [\<lparr>entry_status = sb_status body, changedBy = Some (user_id actor),
                    changedAt = now, entry_comment = map_option trim (sb_comment body)\<rparr>],
                adminComments := adminComments r @
                  (if truthy (map_option trim (sb_comment body))
                   then [\<lparr>comment = (case sb_comment body of Some c \<Rightarrow> trim c | None \<Rightarrow> []),
                          commentedBy = user_id actor, commentedAt = now\<rparr>]
                   else []),
                updatedAt := Some now\<rparr>)"
    and "d' = d\<lparr>reports := (reports d)(rid \<mapsto> sr_report resp)\<rparr>"
    and "statusChanged resp = (status r \<noteq> sb_status body)"
  using assms
  by (auto simp: update_status_def Let_def save_def stamp_updatedAt_modified
           split: if_splits option.splits)

subsection \<open>Status history of a status update\<close>

text \<open>
  The handler pushes one entry and the \<^verbatim>\<open>save\<close> hook pushes another whenever the status
  differs from the stored one: a successful update appends two entries when the status
  changes and one when it does not.
\<close>

lemma update_status_history:
  assumes "reports d rid = Some r"
    and "update_status rid body now actor d = (Inr resp, d')"
  shows "statusHistory (sr_report resp) =
           statusHistory r
           @ [\<lparr>entry_status = sb_status body, changedBy = Some (user_id actor),
                changedAt = now, entry_comment = map_option trim (sb_comment body)\<rparr>]
           @ (if sb_status body \<noteq> status r
              then [\<lparr>entry_status = sb_status body, changedBy = None, changedAt = now,
                     entry_comment = None\<rparr>]
              else [])"
  by (simp add: update_status_InrD(1) [OF assms] pre_save_def Let_def)

text \<open>
  Claim C1 (every status update appends exactly one history entry) fails on the code. On
  the stored pending report, the administrator \<open>bob\<close> sets the status \<^verbatim>\<open>'resolved'\<close>: the
  update succeeds and the history grows by two entries, the handler's (with
  \<^verbatim>\<open>changedBy\<close>) and the hook's (without).
\<close>

theorem status_update_appends_twice:
  "\<not> isl (fst (update_status 10 (set_status ''resolved'') 1000 bob db0))
   \<and> statusHistory
        (sr_report (projr (fst (update_status 10 (set_status ''resolved'') 1000 bob db0))))
       = statusHistory report0
         @ [\<lparr>entry_status = ''resolved'', changedBy = Some 2, changedAt = 1000,
              entry_comment = None\<rparr>,
            \<lparr>entry_status = ''resolved'', changedBy = None, changedAt = 1000,
              entry_comment = None\<rparr>]"
  by (simp add: update_status_def eval_defs)

subsection \<open>The state of a created report\<close>

lemma createReportValidation_NilD:
  assumes "createReportValidation b = []"
  shows "5 \<le> length (rb_title b)" "length (rb_title b) \<le> 100"
    "20 \<le> length (rb_description b)" "length (rb_description b) \<le> 1000"
    "rb_category b \<in> set categories"
    "\<exists>l. rb_location b = Some l \<and> address l \<noteq> [] \<and> - 90 \<le> lat l \<and> lat l \<le> 90
          \<and> - 180 \<le> lng l \<and> lng l \<le> 180 \<and> city l \<noteq> []"
    "case rb_priority b of None \<Rightarrow> True | Some p \<Rightarrow> p \<in> set priorities"
  using assms
  by (auto simp: createReportValidation_def split: if_splits option.splits)

text \<open>A body that passes the route's validation makes a document that passes the schema's.\<close>

lemma new_report_valid:
  assumes v: "createReportValidation (sanitize_report_body body) = []"
    and l: "rb_location (sanitize_report_body body) = Some l"
    and i: "images_ok (case rb_images body of Some imgs \<Rightarrow> imgs | None \<Rightarrow> [])"
  shows "validate (new_report (sanitize_report_body body) l owner ua ip)"
proof -
  let ?b = "sanitize_report_body body"
  note d = createReportValidation_NilD [OF v]
  have t: "rb_title ?b = trim (rb_title body)"
    and ds: "rb_description ?b = trim (rb_description body)"
    and im: "rb_images ?b = rb_images body"
    by (simp_all add: sanitize_report_body_def)
  have "title_ok (trim (rb_title ?b))"
    using d(1,2) by (auto simp: t trim_idem title_ok_def)
  moreover have "description_ok (trim (rb_description ?b))"
    using d(3,4) by (auto simp: ds trim_idem description_ok_def)
  moreover have "location_ok (trim_location l)"
  proof -
    from l obtain l0 where l0: "rb_location body = Some l0"
      and leq: "l = l0\<lparr>address := trim (address l0), city := trim (city l0)\<rparr>"
      by (auto simp: sanitize_report_body_def)
    from d(6) l have "address l \<noteq> []" "- 90 \<le> lat l" "lat l \<le> 90" "- 180 \<le> lng l"
      "lng l \<le> 180" "city l \<noteq> []" by auto
    then show ?thesis
      by (simp add: location_ok_def trim_location_def leq trim_idem)
  qed
  moreover have "(case rb_priority ?b of
                    Some p \<Rightarrow> (if p \<noteq> [] then p else ''medium'') | None \<Rightarrow> ''medium'')
                   \<in> set priorities"
    using d(7) by (auto simp: priorities_def split: option.splits)
  ultimately show ?thesis
    using d(5) i
    by (simp add: validate_def new_report_def statuses_def im)
qed

text \<open>
  Claim C2, as amended: for every valid creation payload (the route's validation passes,
  every image has a URL, the new id is free) the create operation succeeds, stores the
  report it returns, and that report has status \<^verbatim>\<open>'pending'\<close> and an empty status history.
  The \<^verbatim>\<open>save\<close> hook skips new documents, and the handler passes no history.
\<close>

theorem created_report_initial_state:
  assumes "createReportValidation (sanitize_report_body body) = []"
    and "images_ok (case rb_images body of Some imgs \<Rightarrow> imgs | None \<Rightarrow> [])"
    and "rid \<notin> dom (reports d)"
  shows "\<exists>r. create_report actor rid body ua ip now d
               = (Inr r, d\<lparr>reports := (reports d)(rid \<mapsto> r)\<rparr>)
             \<and> status r = ''pending'' \<and> statusHistory r = []"
proof -
  from createReportValidation_NilD(6) [OF assms(1)]
  obtain l where l: "rb_location (sanitize_report_body body) = Some l" by blast
  have v: "validate (new_report (sanitize_report_body body) l (user_id actor) ua ip)"
    by (rule new_report_valid [OF assms(1) l assms(2)])
  show ?thesis
    using assms(1,3) l v
    by (simp add: create_report_def Let_def save_new_def pre_save_def new_report_def)
qed

text \<open>
  Claim C2, witness: the payload \<open>body0\<close> of \<open>alice\<close> is valid, and the report created from
  it is pending with no history.
\<close>

theorem created_report_initial_state_witness:
  "createReportValidation (sanitize_report_body body0) = []
   \<and> rb_images body0 = None
   \<and> 11 \<notin> dom (reports db0)
   \<and> (\<exists>r. create_report alice 11 body0 None None 500 db0
              = (Inr r, db0\<lparr>reports := (reports db0)(11 \<mapsto> r)\<rparr>)
            \<and> status r = ''pending'' \<and> statusHistory r = [])"
proof -
  have a: "createReportValidation (sanitize_report_body body0) = []"
    by (simp add: sanitize_report_body_def createReportValidation_def body0_def
        trim_def is_space_def eval_defs)
  have b: "images_ok (case rb_images body0 of Some imgs \<Rightarrow> imgs | None \<Rightarrow> [])"
    by (simp add: body0_def images_ok_def)
  have c: "11 \<notin> dom (reports db0)" by (simp add: db0_def)
  from created_report_initial_state [OF a b c, of alice None None 500]
  show ?thesis using a c by (simp add: body0_def)
qed

text \<open>
  Claim C2, counterexample to the claim as stated (the history of a created report holds
  exactly one entry, of status \<^verbatim>\<open>'pending'\<close>): the report created from \<open>body0\<close> has no
  history entry at all.
\<close>

theorem created_report_history_counterexample:
  "\<not> isl (fst (create_report alice 11 body0 None None 500 db0))
   \<and> status (projr (fst (create_report alice 11 body0 None None 500 db0))) = ''pending''
   \<and> statusHistory (projr (fst (create_report alice 11 body0 None None 500 db0))) = []
   \<and> length (statusHistory (projr (fst (create_report alice 11 body0 None None 500 db0)))) \<noteq> 1"
  by (simp add: create_report_def sanitize_report_body_def createReportValidation_def body0_def
        trim_def is_space_def save_new_def new_report_def trim_location_def eval_defs)

subsection \<open>The resolution timestamp\<close>

text \<open>
  Claim C3, as amended: a successful status update stamps \<^verbatim>\<open>resolvedAt\<close> with the time of
  the request when it changes the status to \<^verbatim>\<open>'resolved'\<close> (the first time and at every
  re-entry), and leaves \<^verbatim>\<open>resolvedAt\<close> as it was otherwise (the status stays
  \<^verbatim>\<open>'resolved'\<close>, or becomes another one).
\<close>

theorem resolvedAt_after_status_update:
  assumes "reports d rid = Some r"
    and "update_status rid body now actor d = (Inr resp, d')"
  shows "resolvedAt (sr_report resp) =
           (if sb_status body = ''resolved'' \<and> status r \<noteq> ''resolved'' then Some now
            else resolvedAt r)"
  by (auto simp add: update_status_InrD(1) [OF assms] pre_save_def Let_def)

text \<open>
  Claim C3, witness: resolving the stored pending report at time 1000 stamps it with 1000.
\<close>

theorem resolvedAt_after_status_update_witness:
  "reports db0 10 = Some report0
   \<and> \<not> isl (fst (update_status 10 (set_status ''resolved'') 1000 bob db0))
   \<and> resolvedAt (sr_report (projr (fst (update_status 10 (set_status ''resolved'') 1000 bob db0))))
       = Some 1000"
proof -
  let ?res = "update_status 10 (set_status ''resolved'') 1000 bob db0"
  have a: "reports db0 10 = Some report0" by (simp add: db0_def)
  have b: "\<not> isl (fst ?res)" by (simp add: update_status_def eval_defs)
  then have c: "?res = (Inr (projr (fst ?res)), snd ?res)"
    by (cases "fst ?res") (simp_all add: prod_eq_iff)
  from resolvedAt_after_status_update [OF a c] a b
  show ?thesis by (simp add: set_status_def report0_def)
qed

text \<open>
  Claim C3, counterexample to the claim as stated (\<^verbatim>\<open>resolvedAt\<close> is assigned once and
  never again): the report is resolved at 1000, set back to pending at 2000 and resolved
  again at 3000; its \<^verbatim>\<open>resolvedAt\<close> is 1000 after the first and the second update and 3000
  after the third.
\<close>

theorem resolvedAt_restamped_counterexample:
  "map_option resolvedAt (reports db1 10) = Some (Some 1000)
   \<and> map_option status (reports db2 10) = Some ''pending''
   \<and> map_option resolvedAt (reports db2 10) = Some (Some 1000)
   \<and> map_option resolvedAt (reports db3 10) = Some (Some 3000)"
  by (simp add: db3_def db2_def db1_def update_status_def eval_defs)

text \<open>
  Every write of a loaded document goes through \<open>save\<close>, and \<open>save\<close> stamps exactly when
  the status was changed to \<^verbatim>\<open>'resolved'\<close>.
\<close>

lemma save_resolvedAt:
  assumes "save rid loaded r now d = Some (r', d')"
  shows "resolvedAt r' =
           (if status r \<noteq> status loaded \<and> status r = ''resolved'' then Some now
            else resolvedAt r)"
  using assms
  by (auto simp: save_def pre_save_def stamp_updatedAt_fields Let_def split: if_splits)

text \<open>The transition that an assignment makes (pending to in progress) leaves the stamp.\<close>

lemma assign_report_resolvedAt:
  assumes "reports d rid = Some r"
    and "assign_report rid body now actor d = (Inr r', d')"
  shows "resolvedAt r' = resolvedAt r"
  using assms
  by (auto simp: assign_report_def Let_def save_def pre_save_def stamp_updatedAt_fields
           split: if_splits option.splits)

subsection \<open>Refresh tokens at the bearer check\<close>

text \<open>
  \<open>authenticateToken\<close> verifies the signature and the expiry and never reads the
  \<^verbatim>\<open>type\<close> of the payload. An unexpired refresh token of an active user is therefore
  accepted exactly when the refresh secret in use is \<^verbatim>\<open>JWT_SECRET\<close>, which is the
  fallback of \<open>generateRefreshToken\<close> when \<^verbatim>\<open>JWT_REFRESH_SECRET\<close> is not set.
\<close>

lemma refresh_token_at_bearer_check:
  assumes "generateRefreshToken e uid issued = Some tok"
    and "us uid = Some u" and "isActive u" and "now < issued + days 30"
  shows "authenticateToken e us (Some [scheme, tok]) now =
           (if or_else (JWT_REFRESH_SECRET e) (JWT_SECRET e) = JWT_SECRET e then Next u
            else Respond (Failure 401 ''INVALID_TOKEN''))"
  using assms
  by (auto simp: generateRefreshToken_def jwt_sign_def authenticateToken_def bearer_token_def
        jwt_verify_def or_else_def
      split: option.splits if_splits)

text \<open>
  The other direction is closed by the marker: \<open>verifyRefreshToken\<close> rejects every access
  token, and accepts the refresh tokens until they expire. An access token authenticates
  its user until it expires.
\<close>

lemma access_token_rejected_as_refresh:
  assumes "generateToken e uid issued = Some tok"
  shows "verifyRefreshToken e tok now = None"
  using assms
  by (auto simp: generateToken_def jwt_sign_def verifyRefreshToken_def jwt_verify_def
      split: option.splits if_splits sum.splits)

lemma refresh_token_verifies:
  assumes "generateRefreshToken e uid issued = Some tok" and "now < issued + days 30"
  shows "\<exists>decoded. verifyRefreshToken e tok now = Some decoded \<and> userId decoded = uid"
  using assms
  by (auto simp: generateRefreshToken_def jwt_sign_def verifyRefreshToken_def jwt_verify_def
      split: option.splits if_splits sum.splits)

lemma access_token_authenticates:
  assumes "generateToken e uid issued = Some tok"
    and "us uid = Some u" and "isActive u"
    and "now < issued + (case JWT_EXPIRES_IN e of Some d \<Rightarrow> d | None \<Rightarrow> days 7)"
  shows "authenticateToken e us (Some [scheme, tok]) now = Next u"
  using assms
  by (auto simp: generateToken_def jwt_sign_def authenticateToken_def bearer_token_def
        jwt_verify_def
      split: option.splits if_splits)

text \<open>
  Claim C4 (a refresh token is rejected by the bearer check) fails on the code. In the
  environment \<open>env0\<close>, which sets \<^verbatim>\<open>JWT_SECRET\<close> only, the refresh token issued to \<open>alice\<close>
  at time 100 carries the marker \<^verbatim>\<open>type: 'refresh'\<close>, and \<open>authenticateToken\<close> at time 200
  authenticates \<open>alice\<close> with it.
\<close>

theorem refresh_token_accepted_as_access_token:
  "generateRefreshToken env0 1 100 =
     Some (Signed \<lparr>userId = 1, type = Some ''refresh'', iat = 100, exp = 100 + days 30\<rparr>
             ''s3cret'')
   \<and> authenticateToken env0 (users db0)
        (Some [Opaque ''Bearer'',
               Signed \<lparr>userId = 1, type = Some ''refresh'', iat = 100, exp = 100 + days 30\<rparr>
                 ''s3cret''])
        200 = Next alice"
  by (simp add: generateRefreshToken_def jwt_sign_def or_else_def env0_def authenticateToken_def
        bearer_token_def jwt_verify_def days_def db0_def alice_def)

subsection \<open>Length bounds of title and description\<close>

text \<open>The create operation stores titles of 5 to 100 and descriptions of 20 to 1000 characters.\<close>

lemma created_report_bounds:
  assumes "create_report actor rid body ua ip now d = (Inr r, d')"
  shows "5 \<le> length (title r) \<and> length (title r) \<le> 100
       \<and> 20 \<le> length (description r) \<and> length (description r) \<le> 1000"
proof -
  let ?b = "sanitize_report_body body"
  from assms have v: "createReportValidation ?b = []"
    by (auto simp: create_report_def Let_def split: if_splits)
  from assms obtain l where
    r: "r = (new_report ?b l (user_id actor) ua ip)\<lparr>createdAt := Some now, updatedAt := Some now\<rparr>"
    by (auto simp: create_report_def Let_def save_new_def pre_save_def
             split: if_splits option.splits)
  have "title r = trim (rb_title body)" "description r = trim (rb_description body)"
    by (simp_all add: r new_report_def sanitize_report_body_def trim_idem)
  moreover have "rb_title ?b = trim (rb_title body)"
    "rb_description ?b = trim (rb_description body)"
    by (simp_all add: sanitize_report_body_def)
  ultimately show ?thesis
    using createReportValidation_NilD(1-4) [OF v] by simp
qed

text \<open>
  Claim C5 (create and update store titles of 5 to 100 characters only, and a patch
  outside the bounds is rejected) fails on the update path. The owner \<open>alice\<close> patches her
  report with the title \<^verbatim>\<open>Pond\<close>: the schema has no minimum length for the title, the
  update succeeds, and the stored title has four characters. The create operation rejects
  the same title.
\<close>

theorem update_stores_short_title:
  "update_report alice 10 short_title 600 db0 =
     (Inr (Some (report0\<lparr>title := ''Pond'', updatedAt := Some 600\<rparr>)),
      db0\<lparr>reports := (reports db0)(10 \<mapsto> report0\<lparr>title := ''Pond'', updatedAt := Some 600\<rparr>)\<rparr>)
   \<and> length ''Pond'' < (5::nat)
   \<and> create_report alice 11 (body0\<lparr>rb_title := ''Pond''\<rparr>) None None 500 db0 =
       (Inl (ValidationFailed [''Title must be between 5 and 100 characters'']), db0)"
  by (simp add: update_defs create_report_def sanitize_report_body_def
        createReportValidation_def body0_def eval_defs)

subsection \<open>Who may manage and who may view\<close>

text \<open>The owner of a created report is the authenticated user; no operation removes a user.\<close>

lemma created_report_owner:
  assumes "create_report actor rid body ua ip now d = (Inr r, d')"
  shows "reportedBy r = user_id actor \<and> users d' = users d"
  using assms
  by (auto simp: create_report_def Let_def save_new_def pre_save_def new_report_def
           split: if_splits option.splits)

text \<open>
  Claim C6: for a user \<open>u\<close> and a stored report \<open>r\<close> whose owner is a stored user,
  \<open>canEdit\<close> holds exactly when \<open>u\<close> is the owner of \<open>r\<close> or an administrator; fetching
  \<open>r\<close> as \<open>u\<close> succeeds exactly when \<open>r\<close> is public or \<open>canEdit\<close> holds, and fails with
  403 \<^verbatim>\<open>ACCESS_DENIED\<close> otherwise.
\<close>

theorem canManage_and_view:
  assumes "reports d rid = Some r" and "users d (reportedBy r) = Some owner"
  shows "(canEdit r (user_id u) (role u) \<longleftrightarrow> reportedBy r = user_id u \<or> role u = ''admin'')
       \<and> (\<not> isl (get_report (Some u) rid d) \<longleftrightarrow> isPublic r \<or> canEdit r (user_id u) (role u))
       \<and> (isl (get_report (Some u) rid d)
            \<longleftrightarrow> get_report (Some u) rid d = Inl (Failure 403 ''ACCESS_DENIED''))"
  using assms by (auto simp: canEdit_def get_report_def)

text \<open>
  Claim C6, witness: \<open>alice\<close> may manage her report and \<open>dan\<close> may not; \<open>dan\<close> may view it
  while it is public and is denied once it is private.
\<close>

theorem canManage_and_view_witness:
  "reports db0 10 = Some report0
   \<and> canEdit report0 (user_id alice) (role alice)
   \<and> \<not> canEdit report0 (user_id dan) (role dan)
   \<and> \<not> isl (get_report (Some dan) 10 db0)
   \<and> get_report (Some dan) 10 (db0\<lparr>reports := [10 \<mapsto> report0\<lparr>isPublic := False\<rparr>]\<rparr>)
       = Inl (Failure 403 ''ACCESS_DENIED'')"
proof -
  have a: "reports db0 10 = Some report0" by (simp add: db0_def)
  have b: "reports (db0\<lparr>reports := [10 \<mapsto> report0\<lparr>isPublic := False\<rparr>]\<rparr>) 10
             = Some (report0\<lparr>isPublic := False\<rparr>)" by simp
  have o: "users db0 (reportedBy report0) = Some alice"
    by (simp add: db0_def report0_def)
  have o': "users (db0\<lparr>reports := [10 \<mapsto> report0\<lparr>isPublic := False\<rparr>]\<rparr>)
              (reportedBy (report0\<lparr>isPublic := False\<rparr>)) = Some alice"
    by (simp add: db0_def report0_def)
  show ?thesis
    using canManage_and_view [OF a o, of alice] canManage_and_view [OF a o, of dan]
      canManage_and_view [OF b o', of dan] a
    by (auto simp add: report0_def alice_def dan_def canEdit_def)
qed

subsection \<open>Toggling an upvote twice\<close>


text \<open>
  No user votes twice on a report: \<open>new_report\<close> starts a report with no votes, and every
  operation on the reports keeps \<open>votes_once\<close>, whatever it answers.
\<close>

lemma save_votes_once:
  assumes "votes_once d" and "distinct (map user (upvotes r))"
    and "save rid loaded r now d = Some (r', d')"
  shows "votes_once d'"
  using assms
  by (auto simp: save_def pre_save_def stamp_updatedAt_fields Let_def votes_once_def
        split: if_splits)

lemma create_report_votes_once:
  assumes "votes_once d"
  shows "votes_once (snd (create_report actor rid body ua ip now d))"
  using assms
  by (auto simp: create_report_def Let_def save_new_def pre_save_def new_report_def
        votes_once_def split: option.splits if_splits)

lemma update_status_votes_once:
  assumes "votes_once d"
  shows "votes_once (snd (update_status rid body now actor d))"
proof (cases "reports d rid")
  case None
  then show ?thesis using assms by (simp add: update_status_def Let_def)
next
  case (Some r)
  then have dr: "distinct (map user (upvotes r))"
    using assms by (auto simp: votes_once_def)
  show ?thesis
    using assms Some dr
    by (auto simp: update_status_def Let_def split: option.splits if_splits
          elim!: save_votes_once [rotated 2])
qed


lemma assign_report_votes_once:
  assumes "votes_once d"
  shows "votes_once (snd (assign_report rid body now actor d))"
proof (cases "reports d rid")
  case None
  then show ?thesis using assms by (simp add: assign_report_def Let_def)
next
  case (Some r)
  then have dr: "distinct (map user (upvotes r))"
    using assms by (auto simp: votes_once_def)
  show ?thesis
    using assms Some dr
    by (auto simp: assign_report_def Let_def split: option.splits if_splits
          elim!: save_votes_once [rotated 2])
qed

lemma add_comment_votes_once:
  assumes "votes_once d"
  shows "votes_once (snd (add_comment rid c now actor d))"
proof (cases "reports d rid")
  case None
  then show ?thesis using assms by (simp add: add_comment_def Let_def)
next
  case (Some r)
  then have dr: "distinct (map user (upvotes r))"
    using assms by (auto simp: votes_once_def)
  show ?thesis
    using assms Some dr
    by (auto simp: add_comment_def Let_def split: option.splits if_splits
          elim!: save_votes_once [rotated 2])
qed

lemma update_report_votes_once:
  assumes "votes_once d"
  shows "votes_once (snd (update_report actor rid body now d))"
  using assms
  by (auto simp: update_report_def findByIdAndUpdate_def apply_update_def Let_def votes_once_def
        split: option.splits if_splits)

lemma toggle_upvote_votes_once:
  assumes "votes_once d"
  shows "votes_once (snd (toggle_upvote actor rid now d))"
proof (cases "reports d rid")
  case None
  then show ?thesis using assms by (simp add: toggle_upvote_def)
next
  case (Some r)
  then have dr: "distinct (map user (upvotes r))"
    using assms by (auto simp: votes_once_def)
  have n: "\<not> list_ex (\<lambda>vote. user vote = user_id actor) (upvotes r)
             \<Longrightarrow> user_id actor \<notin> user ` set (upvotes r)"
    by (force simp: list_ex_iff)
  show ?thesis
    using assms Some dr n
    by (auto simp: toggle_upvote_def addUpvote_def removeUpvote_def Let_def distinct_map_filter
          split: option.splits if_splits
          elim!: save_votes_once [rotated 2])
qed




subsection \<open>The area check of the admin routes\<close>

text \<open>
  Claim C8: let an administrator have a non-empty administrative area that the city of a
  stored report does not contain (case-insensitively). A status update with a valid body
  fails with 403 \<^verbatim>\<open>AREA_ACCESS_DENIED\<close> and leaves the database as it was; an assignment
  to an existing administrator and a comment of 1 to 500 characters on the same report
  both succeed and are stored.
\<close>

theorem area_check_on_status_update_only:
  assumes admin: "role actor = ''admin''"
    and area: "adminArea actor = Some area" "area \<noteq> []"
      "\<not> includes_str (toLowerCase (city (location r))) (toLowerCase area)"
    and r: "reports d rid = Some r" "validate r"
    and sb: "sb_status sbody \<in> set statuses"
      "case sb_comment sbody of None \<Rightarrow> True | Some c \<Rightarrow> length (trim c) \<le> 500"
    and ab: "ab_assignedTo abody = Some a" "users d a = Some assignee" "role assignee = ''admin''"
      "case ab_comment abody of None \<Rightarrow> True | Some c \<Rightarrow> length (trim c) \<le> 500"
    and cm: "1 \<le> length (trim c)" "length (trim c) \<le> 500"
  shows "admin_route (update_status rid sbody now) actor d
           = (Inl (Failure 403 ''AREA_ACCESS_DENIED''), d)
       \<and> (\<exists>r'. admin_route (assign_report rid abody now) actor d
                  = (Inr r', d\<lparr>reports := (reports d)(rid \<mapsto> r')\<rparr>)
                \<and> assignedTo r' = Some a)
       \<and> (\<exists>r'. admin_route (add_comment rid c now) actor d
                  = (Inr \<lparr>comment = trim c, commentedBy = user_id actor, commentedAt = now\<rparr>,
                     d\<lparr>reports := (reports d)(rid \<mapsto> r')\<rparr>)
                \<and> adminComments r' = adminComments r
                     @ [\<lparr>comment = trim c, commentedBy = user_id actor, commentedAt = now\<rparr>])"
proof -
  have s: "admin_route (update_status rid sbody now) actor d
             = (Inl (Failure 403 ''AREA_ACCESS_DENIED''), d)"
    using admin area r(1) sb
    by (auto simp: admin_route_def requireAdmin_def update_status_def updateStatusValidation_def
          area_denied_def Let_def split: option.splits)
  have a: "\<exists>r'. admin_route (assign_report rid abody now) actor d
                  = (Inr r', d\<lparr>reports := (reports d)(rid \<mapsto> r')\<rparr>)
                \<and> assignedTo r' = Some a"
    using admin r ab
    by (auto simp: admin_route_def requireAdmin_def assign_report_def assignReportValidation_def
          save_def pre_save_def stamp_updatedAt_fields validate_def statuses_def Let_def
          split: option.splits)
  have c: "\<exists>r'. admin_route (add_comment rid c now) actor d
                  = (Inr \<lparr>comment = trim c, commentedBy = user_id actor, commentedAt = now\<rparr>,
                     d\<lparr>reports := (reports d)(rid \<mapsto> r')\<rparr>)
                \<and> adminComments r' = adminComments r
                     @ [\<lparr>comment = trim c, commentedBy = user_id actor, commentedAt = now\<rparr>]"
    using admin r cm
    by (auto simp: admin_route_def requireAdmin_def add_comment_def
          save_def pre_save_def stamp_updatedAt_fields validate_def Let_def)
  from s a c show ?thesis by blast
qed

text \<open>
  Claim C8, witness: \<open>carol\<close> administers \<^verbatim>\<open>Lahore\<close> and the stored report is in
  \<^verbatim>\<open>Springfield\<close>. Her status update is denied and changes nothing; her assignment of the
  report to \<open>bob\<close> and her comment succeed.
\<close>

theorem area_check_on_status_update_only_witness:
  "area_denied carol report0
   \<and> fst (admin_route (update_status 10 (set_status ''in_progress'') 900) carol db0)
       = Inl (Failure 403 ''AREA_ACCESS_DENIED'')
   \<and> snd (admin_route (update_status 10 (set_status ''in_progress'') 900) carol db0) = db0
   \<and> \<not> isl (fst (admin_route
                   (assign_report 10 \<lparr>ab_assignedTo = Some 2, ab_comment = None\<rparr> 900) carol db0))
   \<and> fst (admin_route (add_comment 10 ''Crew sent'' 900) carol db0)
       = Inr \<lparr>comment = ''Crew sent'', commentedBy = 3, commentedAt = 900\<rparr>"
proof -
  have h1: "role carol = ''admin''" "adminArea carol = Some ''Lahore''" "''Lahore'' \<noteq> []"
    by (simp_all add: carol_def)
  have h2: "\<not> includes_str (toLowerCase (city (location report0))) (toLowerCase ''Lahore'')"
    by (simp add: report0_def elm_street_def toLowerCase_def lower_char_def)
  have h3: "reports db0 10 = Some report0" by (simp add: db0_def)
  have h4: "validate report0" by (simp add: eval_defs)
  have h5: "sb_status (set_status ''in_progress'') \<in> set statuses"
    "case sb_comment (set_status ''in_progress'') of None \<Rightarrow> True
     | Some c \<Rightarrow> length (trim c) \<le> 500"
    by (simp_all add: set_status_def statuses_def)
  have h6: "ab_assignedTo \<lparr>ab_assignedTo = Some 2, ab_comment = None\<rparr> = Some 2"
    "users db0 2 = Some bob" "role bob = ''admin''"
    "case ab_comment \<lparr>ab_assignedTo = Some 2, ab_comment = None\<rparr> of None \<Rightarrow> True
     | Some c \<Rightarrow> length (trim c) \<le> 500"
    by (simp_all add: db0_def bob_def)
  have t: "trim ''Crew sent'' = ''Crew sent''" by (simp add: trim_def is_space_def)
  have h7: "1 \<le> length (trim ''Crew sent'')" "length (trim ''Crew sent'') \<le> 500"
    by (simp_all add: t)
  have ad: "area_denied carol report0"
    using h2 by (simp add: area_denied_def carol_def)
  from area_check_on_status_update_only [OF h1 h2 h3 h4 h5 h6 h7, of 900]
  show ?thesis using ad by (auto simp: t carol_def)
qed

subsection \<open>The frame of a content update\<close>

lemma update_report_InrD:
  assumes "reports d rid = Some r"
    and "update_report actor rid body now d = (Inr resp, d')"
  shows "canEdit r (user_id actor) (role actor)"
    and "update_validators (cast_update (updateData body))"
    and "resp = Some (apply_update (cast_update (updateData body)) now r)"
    and "d' = d\<lparr>reports := (reports d)(rid \<mapsto> apply_update (cast_update (updateData body)) now r)\<rparr>"
  using assms
  by (auto simp: update_report_def findByIdAndUpdate_def Let_def split: if_splits option.splits)

text \<open>
  Claim C9, as amended: a successful \<^verbatim>\<open>PUT /api/reports/:id\<close> returns and stores a report
  whose status, status history, admin comments, upvotes, owner and resolution timestamp
  are those of the report before the call; its \<^verbatim>\<open>updatedAt\<close> is the time of the call, and
  it differs from the report before the call in no field other than title, description,
  category, location, images, priority, tags, visibility and \<^verbatim>\<open>updatedAt\<close>.
\<close>

theorem content_update_frame:
  assumes "reports d rid = Some r"
    and "update_report actor rid body now d = (Inr resp, d')"
  shows "\<exists>r'. resp = Some r' \<and> reports d' rid = Some r'
           \<and> status r' = status r \<and> statusHistory r' = statusHistory r
           \<and> adminComments r' = adminComments r \<and> upvotes r' = upvotes r
           \<and> reportedBy r' = reportedBy r \<and> resolvedAt r' = resolvedAt r
           \<and> updatedAt r' = Some now
           \<and> r' = r\<lparr>title := title r', description := description r', category := category r',
                    location := location r', images := images r', priority := priority r',
                    tags := tags r', isPublic := isPublic r', updatedAt := Some now\<rparr>"
  by (simp add: update_report_InrD(3,4) [OF assms] apply_update_def)

text \<open>
  Claim C9, witness: \<open>alice\<close> retitles her resolved report at time 5000. The stored report
  keeps its status, its two history entries, its comment, the vote of \<open>dan\<close>, its owner and
  its resolution time 1000, and carries the new title and the stamp 5000.
\<close>

theorem content_update_frame_witness:
  "reports db5 12 = Some report1
   \<and> fst (update_report alice 12 retitle 5000 db5)
       = Inr (Some (report1\<lparr>title := ''Pump house is flooding the road'',
                             updatedAt := Some 5000\<rparr>))
   \<and> map_option status (reports (snd (update_report alice 12 retitle 5000 db5)) 12)
       = Some ''resolved''
   \<and> map_option statusHistory (reports (snd (update_report alice 12 retitle 5000 db5)) 12)
       = Some [\<lparr>entry_status = ''resolved'', changedBy = Some 2, changedAt = 1000,
                 entry_comment = Some ''Pipe replaced''\<rparr>,
               \<lparr>entry_status = ''resolved'', changedBy = None, changedAt = 1000,
                 entry_comment = None\<rparr>]
   \<and> map_option adminComments (reports (snd (update_report alice 12 retitle 5000 db5)) 12)
       = Some [\<lparr>comment = ''Pipe replaced'', commentedBy = 2, commentedAt = 1000\<rparr>]
   \<and> map_option upvotes (reports (snd (update_report alice 12 retitle 5000 db5)) 12)
       = Some [\<lparr>user = 4, votedAt = 400\<rparr>]
   \<and> map_option reportedBy (reports (snd (update_report alice 12 retitle 5000 db5)) 12)
       = Some 1
   \<and> map_option resolvedAt (reports (snd (update_report alice 12 retitle 5000 db5)) 12)
       = Some (Some 1000)
   \<and> map_option updatedAt (reports (snd (update_report alice 12 retitle 5000 db5)) 12)
       = Some (Some 5000)"
proof -
  let ?res = "update_report alice 12 retitle 5000 db5"
  have a: "reports db5 12 = Some report1" by (simp add: db5_def)
  have b: "fst ?res = Inr (Some (report1\<lparr>title := ''Pump house is flooding the road'',
                                        updatedAt := Some 5000\<rparr>))"
    by (simp add: update_defs retitle_def db5_def alice_def report1_def truthy_def title_ok_def
          Let_def)
  then have c: "?res = (Inr (Some (report1\<lparr>title := ''Pump house is flooding the road'',
                                            updatedAt := Some 5000\<rparr>)), snd ?res)"
    by (simp add: prod_eq_iff)
  from content_update_frame [OF a c] obtain r' where
    r': "reports (snd ?res) 12 = Some r'"
      "status r' = status report1" "statusHistory r' = statusHistory report1"
      "adminComments r' = adminComments report1" "upvotes r' = upvotes report1"
      "reportedBy r' = reportedBy report1" "resolvedAt r' = resolvedAt report1"
      "updatedAt r' = Some 5000"
    by blast
  show ?thesis
    using a b r' by (simp add: report1_def)
qed

text \<open>
  Claim C9, counterexample to the claim as stated (only the eight content fields may
  change): the same update succeeds and moves \<^verbatim>\<open>updatedAt\<close> from 1000 to 5000.
\<close>

theorem content_update_stamps_updatedAt_counterexample:
  "\<not> isl (fst (update_report alice 12 retitle 5000 db5))
   \<and> map_option updatedAt (reports db5 12) = Some (Some 1000)
   \<and> map_option updatedAt (reports (snd (update_report alice 12 retitle 5000 db5)) 12)
       = Some (Some 5000)"
  by (simp add: update_defs retitle_def db5_def alice_def report1_def truthy_def title_ok_def
        Let_def)

subsection \<open>Optional authentication\<close>

text \<open>
  \<open>optionalAuth\<close> passes every request on. It attaches no user when the token is missing,
  is not a token, has expired, was signed with another secret, or names a user that is
  not stored or not active.
\<close>

lemma optionalAuth_without_user:
  assumes "bearer_token h = None
           \<or> (\<exists>s. bearer_token h = Some (Opaque s))
           \<or> (\<exists>p k. bearer_token h = Some (Signed p k)
                  \<and> (exp p \<le> now \<or> JWT_SECRET e \<noteq> Some k \<or> k = [] \<or> us (userId p) = None
                       \<or> (\<exists>u. us (userId p) = Some u \<and> \<not> isActive u)))"
  shows "optionalAuth e us h now = Next None"
  using assms
  by (auto simp: optionalAuth_def optionalAuth_try_def jwt_verify_def
      split: option.splits sum.splits if_splits)

lemma optionalAuth_with_user:
  assumes "bearer_token h = Some (Signed p k)" and "JWT_SECRET e = Some k" and "k \<noteq> []"
    and "now < exp p" and "us (userId p) = Some u" and "isActive u"
  shows "optionalAuth e us h now = Next (Some u)"
  using assms
  by (simp add: optionalAuth_def optionalAuth_try_def jwt_verify_def)

lemma optionalAuth_passes: "\<exists>req_user. optionalAuth e us h now = Next req_user"
  by (simp add: optionalAuth_def split: sum.splits)

text \<open>The two routes behind \<open>optionalAuth\<close> answer as their handlers do for the user it attached.\<close>

lemma routes_after_optionalAuth:
  assumes "optionalAuth e (users d) h now = Next req_user"
  shows "get_report_route e h now rid d = get_report req_user rid d"
    and "list_reports_route e engine h now q d = list_reports engine req_user q d"
  using assms by (simp_all add: get_report_route_def list_reports_route_def)

lemma get_report_errors:
  "get_report req_user rid d \<noteq> Inl (Failure 401 code)"
  by (simp add: get_report_def Let_def split: option.splits)

lemma list_reports_errors:
  "list_reports engine req_user q d \<noteq> Inl (Failure 401 code)"
  by (simp add: list_reports_def Let_def)

text \<open>
  Claim C10: \<open>optionalAuth\<close> never answers with an error. A request without a token, with
  text that is not a token, with an expired token, with a token signed with another
  secret, or with a token of a user that is not stored or not active goes on without a
  user; a request with an unexpired token signed with \<^verbatim>\<open>JWT_SECRET\<close> for a stored, active
  user goes on as that user. \<^verbatim>\<open>GET /api/reports/:id\<close> and \<^verbatim>\<open>GET /api/reports\<close> then answer
  as their handlers do for an anonymous request in the first case and for that user in the
  second, and neither answers 401.
\<close>

theorem optionalAuth_never_rejects:
  "(\<exists>req_user. optionalAuth e us h now = Next req_user)
   \<and> (bearer_token h = None \<longrightarrow> optionalAuth e us h now = Next None)
   \<and> (bearer_token h = Some (Opaque s) \<longrightarrow> optionalAuth e us h now = Next None)
   \<and> (bearer_token h = Some (Signed p k) \<and> exp p \<le> now
        \<longrightarrow> optionalAuth e us h now = Next None)
   \<and> (bearer_token h = Some (Signed p k) \<and> (JWT_SECRET e \<noteq> Some k \<or> k = [])
        \<longrightarrow> optionalAuth e us h now = Next None)
   \<and> (bearer_token h = Some (Signed p k) \<and> us (userId p) = None
        \<longrightarrow> optionalAuth e us h now = Next None)
   \<and> (bearer_token h = Some (Signed p k) \<and> us (userId p) = Some u \<and> \<not> isActive u
        \<longrightarrow> optionalAuth e us h now = Next None)
   \<and> (bearer_token h = Some (Signed p k) \<and> JWT_SECRET e = Some k \<and> k \<noteq> [] \<and> now < exp p
        \<and> us (userId p) = Some u \<and> isActive u
        \<longrightarrow> optionalAuth e us h now = Next (Some u))
   \<and> (optionalAuth e (users d) h now = Next None
        \<longrightarrow> get_report_route e h now rid d = get_report None rid d
            \<and> list_reports_route e engine h now q d = list_reports engine None q d)
   \<and> (bearer_token h = Some (Signed p k) \<and> JWT_SECRET e = Some k \<and> k \<noteq> [] \<and> now < exp p
        \<and> users d (userId p) = Some u \<and> isActive u
        \<longrightarrow> get_report_route e h now rid d = get_report (Some u) rid d
            \<and> list_reports_route e engine h now q d = list_reports engine (Some u) q d)
   \<and> get_report_route e h now rid d \<noteq> Inl (Failure 401 code)
   \<and> list_reports_route e engine h now q d \<noteq> Inl (Failure 401 code)"
proof -
  obtain ru where ru: "optionalAuth e (users d) h now = Next ru"
    using optionalAuth_passes by blast
  have r401: "get_report_route e h now rid d \<noteq> Inl (Failure 401 code)"
    "list_reports_route e engine h now q d \<noteq> Inl (Failure 401 code)"
    by (simp_all add: routes_after_optionalAuth [OF ru] get_report_errors list_reports_errors)
  have valid: "bearer_token h = Some (Signed p k) \<and> JWT_SECRET e = Some k \<and> k \<noteq> [] \<and> now < exp p
        \<and> users d (userId p) = Some u \<and> isActive u
        \<longrightarrow> get_report_route e h now rid d = get_report (Some u) rid d
            \<and> list_reports_route e engine h now q d = list_reports engine (Some u) q d"
    using routes_after_optionalAuth [OF optionalAuth_with_user] by blast
  have anon: "optionalAuth e (users d) h now = Next None
        \<longrightarrow> get_report_route e h now rid d = get_report None rid d
            \<and> list_reports_route e engine h now q d = list_reports engine None q d"
    using routes_after_optionalAuth by blast
  show ?thesis
    using optionalAuth_passes [of e us h now] optionalAuth_without_user [of h now e us]
      optionalAuth_with_user [of h p k e now us u] r401 valid anon
    by (intro conjI impI) blast+
qed


text \<open>
  Claim C10, witness: in \<open>env0\<close> at time 200, requests without a header, with the text
  \<^verbatim>\<open>garbage\<close>, with an expired token of \<open>alice\<close>, with a forged one, with a token of the
  unknown user 99 and with one of the deactivated \<open>erin\<close> go on without a user, and the
  token of \<open>alice\<close> that expires at 1000 goes on as \<open>alice\<close>. Her private report is denied
  to the anonymous requests and returned to her; the listing marks her vote on her public
  report only for her.
\<close>

theorem optionalAuth_never_rejects_witness:
  "optionalAuth env0 (users db5) None 200 = Next None
   \<and> optionalAuth env0 (users db5) (bearer (Opaque ''garbage'')) 200 = Next None
   \<and> optionalAuth env0 (users db5) (bearer (token_of 1 100 ''s3cret'')) 200 = Next None
   \<and> optionalAuth env0 (users db5) (bearer (token_of 1 1000 ''forged'')) 200 = Next None
   \<and> optionalAuth env0 (users db5) (bearer (token_of 99 1000 ''s3cret'')) 200 = Next None
   \<and> optionalAuth env0 (users db5) (bearer (token_of 5 1000 ''s3cret'')) 200 = Next None
   \<and> optionalAuth env0 (users db5) (bearer (token_of 1 1000 ''s3cret'')) 200 = Next (Some alice)
   \<and> get_report_route env0 None 200 12 db5 = Inl (Failure 403 ''ACCESS_DENIED'')
   \<and> get_report_route env0 (bearer (token_of 1 100 ''s3cret'')) 200 12 db5
       = Inl (Failure 403 ''ACCESS_DENIED'')
   \<and> get_report_route env0 (bearer (token_of 1 1000 ''s3cret'')) 200 12 db5
       = Inr \<lparr>rv_report = report1, rv_upvoteCount = 1, rv_hasUserUpvoted = False\<rparr>
   \<and> map rv_hasUserUpvoted
        (lr_reports (projr (list_reports_route env0 engine0 None 200 no_query db5))) = [False]
   \<and> map rv_hasUserUpvoted
        (lr_reports (projr (list_reports_route env0 engine0
           (bearer (token_of 1 1000 ''forged'')) 200 no_query db5))) = [False]
   \<and> map rv_hasUserUpvoted
        (lr_reports (projr (list_reports_route env0 engine0
           (bearer (token_of 1 1000 ''s3cret'')) 200 no_query db5))) = [True]"
proof -
  note inst = optionalAuth_never_rejects [where e = env0 and us = "users db5" and d = db5
      and now = 200 and rid = 12 and engine = engine0 and q = no_query and code = "[]"
      and s = "''garbage''"]
  have bt: "\<And>t. t \<noteq> Opaque [] \<Longrightarrow> bearer_token (bearer t) = Some t"
    by (simp add: bearer_def bearer_token_def)
  have users: "users db5 1 = Some alice" "users db5 5 = Some erin" "users db5 99 = None"
    "isActive alice" "\<not> isActive erin"
    by (simp_all add: db5_def alice_def erin_def)
  have secret: "JWT_SECRET env0 = Some ''s3cret''" by (simp add: env0_def)
  have anon: "get_report None 12 db5 = Inl (Failure 403 ''ACCESS_DENIED'')"
    by (simp add: get_report_def db5_def report1_def)
  have own: "get_report (Some alice) 12 db5
               = Inr \<lparr>rv_report = report1, rv_upvoteCount = 1, rv_hasUserUpvoted = False\<rparr>"
    by (simp add: get_report_def db5_def report1_def alice_def)
  have found: "find_reports engine0
                 \<lparr>f_isPublic = True, f_status = None, f_category = None, f_city = None,
                   f_priority = None, f_search = None\<rparr> (''createdAt'', - 1) 0 10 db5
               = [report2]"
    by (simp add: engine0_def admits_def opt_ok_def db5_def report1_def report2_def report0_def
          List.map_filter_simps)
  have listed: "\<And>ru. lr_reports (projr (list_reports engine0 ru no_query db5))
                  = [with_metadata ru report2]"
    using found
    by (simp add: list_reports_def listValidation_def optional_check_def no_query_def
          if_given_def truthy_def opt_ok_def Let_def)
  have flags: "rv_hasUserUpvoted (with_metadata None report2) = False"
    "rv_hasUserUpvoted (with_metadata (Some alice) report2) = True"
    by (simp_all add: with_metadata_def report2_def alice_def)
  have h0: "optionalAuth env0 (users db5) None 200 = Next None"
    using inst [where h = None] by (simp add: bearer_token_def)
  have h1: "optionalAuth env0 (users db5) (bearer (Opaque ''garbage'')) 200 = Next None"
    using inst [where h = "bearer (Opaque ''garbage'')"] by (simp add: bt)
  have h2: "optionalAuth env0 (users db5) (bearer (token_of 1 100 ''s3cret'')) 200 = Next None"
    using inst [where h = "bearer (token_of 1 100 ''s3cret'')"
        and p = "\<lparr>userId = 1, type = None, iat = 0, exp = 100\<rparr>" and k = "''s3cret''"]
    by (simp add: bt token_of_def)
  have h3: "optionalAuth env0 (users db5) (bearer (token_of 1 1000 ''forged'')) 200 = Next None"
    using inst [where h = "bearer (token_of 1 1000 ''forged'')"
        and p = "\<lparr>userId = 1, type = None, iat = 0, exp = 1000\<rparr>" and k = "''forged''"]
    by (simp add: bt token_of_def secret)
  have h4: "optionalAuth env0 (users db5) (bearer (token_of 99 1000 ''s3cret'')) 200 = Next None"
    using inst [where h = "bearer (token_of 99 1000 ''s3cret'')"
        and p = "\<lparr>userId = 99, type = None, iat = 0, exp = 1000\<rparr>" and k = "''s3cret''"]
      users
    by (simp add: bt token_of_def)
  have h5: "optionalAuth env0 (users db5) (bearer (token_of 5 1000 ''s3cret'')) 200 = Next None"
    using inst [where h = "bearer (token_of 5 1000 ''s3cret'')"
        and p = "\<lparr>userId = 5, type = None, iat = 0, exp = 1000\<rparr>" and k = "''s3cret''"
        and u = erin]
      users
    by (simp add: bt token_of_def)
  note valid = inst [where h = "bearer (token_of 1 1000 ''s3cret'')"
        and p = "\<lparr>userId = 1, type = None, iat = 0, exp = 1000\<rparr>" and k = "''s3cret''"
        and u = alice]
  have h6: "optionalAuth env0 (users db5) (bearer (token_of 1 1000 ''s3cret'')) 200
              = Next (Some alice)"
    and r6: "get_report_route env0 (bearer (token_of 1 1000 ''s3cret'')) 200 12 db5
              = get_report (Some alice) 12 db5"
    and l6: "list_reports_route env0 engine0 (bearer (token_of 1 1000 ''s3cret'')) 200 no_query db5
              = list_reports engine0 (Some alice) no_query db5"
    using valid users secret by (simp_all add: bt token_of_def)
  have r0: "get_report_route env0 None 200 12 db5 = get_report None 12 db5"
    and l0: "list_reports_route env0 engine0 None 200 no_query db5
              = list_reports engine0 None no_query db5"
    using inst [where h = None] h0 by simp_all
  have r2: "get_report_route env0 (bearer (token_of 1 100 ''s3cret'')) 200 12 db5
              = get_report None 12 db5"
    using inst [where h = "bearer (token_of 1 100 ''s3cret'')"] h2 by simp
  have l3: "list_reports_route env0 engine0 (bearer (token_of 1 1000 ''forged'')) 200 no_query db5
              = list_reports engine0 None no_query db5"
    using inst [where h = "bearer (token_of 1 1000 ''forged'')"] h3 by simp
  show ?thesis
    using h0 h1 h2 h3 h4 h5 h6 r0 r2 r6 l0 l3 l6 anon own listed flags by simp
qed

end
